theory Spec2Isabelle
  imports Main "HOL-Library.AList"
begin

section \<open>The sound machine of main.js\<close>

text \<open>
  The class \<open>SoundMachine\<close> of \<^verbatim>\<open>src/main.js\<close> is embedded with explicit state passing:
  every method takes the machine and returns the updated one. JavaScript objects used as
  dictionaries (\<open>activeSounds\<close>, \<open>comboSounds\<close>) are association lists in insertion
  order, which is the order \<open>Object.keys\<close> enumerates; assignment to a key is
  \<open>AList.update\<close> (in place for an old key, appended for a new one) and the operator
  \<open>delete\<close> is \<open>AList.delete\<close>.

  What the browser supplies is part of the state: the table of live \<open>setInterval\<close>
  handles with the callback each one runs, the counters from which fresh audio nodes and
  interval handles are taken, whether the audio context is suspended, the calls made on
  audio nodes, the console and \<open>alert\<close>, and the elements of the page the code reads
  and writes (tiles carrying the class \<open>playing\<close>, checkboxes, the timer display).
  \<open>Date.now()\<close> is a parameter \<open>now\<close> in milliseconds.

  The page itself (index.html) is fixed: the elements that the code looks up by a constant
  id and dereferences without a guard exist. Sound identifiers are the \<open>data-sound\<close>
  values of tiles and the keys of \<open>comboSounds\<close>; names inherited from
  \<open>Object.prototype\<close> are not among them. Sample contents of noise buffers, filter
  parameters, gain automation and the fire-and-forget transients (droplets, chirps,
  rustles, the notes of the lullaby) do not touch any field below and are left out.
\<close>

subsection \<open>Data\<close>

text \<open>
  The members of the arrays stored in \<open>activeSounds\<close>. Buffer sources and oscillators
  have a method \<open>stop\<close>; filters, gains and the compressor only \<open>disconnect\<close>; the value
  returned by \<open>setInterval\<close> is a number and has neither.
\<close>

datatype node =
    BufferSource nat
  | Oscillator nat
  | BiquadFilter nat
  | GainNode nat
  | DynamicsCompressor nat
  | IntervalId nat

text \<open>The closures handed to \<open>setInterval\<close>.\<close>

datatype callback = TimerTick | RaindropScheduler | BirdScheduler | WindScheduler

text \<open>Calls that leave the program: on audio nodes, the audio context, the console, \<open>alert\<close>.\<close>

datatype effect =
    Started node
  | Stopped node
  | Disconnected node
  | Resumed
  | ConsoleWarn string string
  | Alert string

record sound_machine =
  suspended :: bool
  nextNode :: nat
  nextInterval :: nat
  intervals :: "(nat \<times> callback) list"
  effects :: "effect list"
  activeSounds :: "(string \<times> node list) list"
  timerDuration :: int
  timerEndTime :: int
  timerInterval :: "nat option"
  currentSound :: "string option"
  comboSounds :: "(string \<times> bool) list"
  tiles :: "string list"
  playing :: "string list"
  comboSettingsHidden :: bool
  timerDisplayHidden :: bool
  timeRemaining :: "int \<times> int"
  activeTimerBtn :: int
  checkboxes :: "string \<Rightarrow> bool"

text \<open>
  The constructor (lines 21-51), on a page with the given tiles and checkbox states.
  \<open>timerInterval = null\<close> is \<open>None\<close>; interval handles are positive, so a handle is
  truthy exactly when it is not \<open>null\<close>.
\<close>

definition constructor :: "string list \<Rightarrow> (string \<Rightarrow> bool) \<Rightarrow> bool \<Rightarrow> sound_machine" where
  "constructor page_tiles page_checkboxes ctx_suspended =
     \<lparr> suspended = ctx_suspended,
       nextNode = 0,
       nextInterval = 0,
       intervals = [],
       effects = [],
       activeSounds = [],
       timerDuration = 0,
       timerEndTime = 0,
       timerInterval = None,
       currentSound = None,
       comboSounds =
         [(''white-noise'', False), (''pink-noise'', False), (''brown-noise'', False),
          (''heartbeat'', False), (''ocean'', False), (''rain'', False), (''snow'', False),
          (''forest'', False), (''lullaby'', False)],
       tiles = page_tiles,
       playing = [],
       comboSettingsHidden = True,
       timerDisplayHidden = True,
       timeRemaining = (0, 0),
       activeTimerBtn = 0,
       checkboxes = page_checkboxes \<rparr>"

subsection \<open>The browser's interval table\<close>

definition setInterval :: "callback \<Rightarrow> sound_machine \<Rightarrow> nat \<times> sound_machine" where
  "setInterval cb s =
     (let i = Suc (nextInterval s)
      in (i, s\<lparr>nextInterval := i, intervals := intervals s @ [(i, cb)]\<rparr>))"

definition clearInterval :: "nat \<Rightarrow> sound_machine \<Rightarrow> sound_machine" where
  "clearInterval i s = s\<lparr>intervals := filter (\<lambda>(j, cb). j \<noteq> i) (intervals s)\<rparr>"

subsection \<open>Sound generation methods (lines 425-906)\<close>

text \<open>
  Each builder creates its nodes in the order of the source, starts the generators and
  stores the array of nodes under its key. \<open>createdNodes k\<close> advances the node counter by
  the number of nodes the builder creates.
\<close>

definition createdNodes :: "nat \<Rightarrow> sound_machine \<Rightarrow> sound_machine" where
  "createdNodes k s = s\<lparr>nextNode := nextNode s + k\<rparr>"

definition startNode :: "node \<Rightarrow> sound_machine \<Rightarrow> sound_machine" where
  "startNode n s = s\<lparr>effects := effects s @ [Started n]\<rparr>"

definition store :: "string \<Rightarrow> node list \<Rightarrow> sound_machine \<Rightarrow> sound_machine" where
  "store key nodes s = s\<lparr>activeSounds := AList.update key nodes (activeSounds s)\<rparr>"

definition playWhiteNoise :: "sound_machine \<Rightarrow> sound_machine" where
  "playWhiteNoise s =
     (let n = nextNode s;
          whiteNoise = BufferSource n;
          filter = BiquadFilter (n + 1)
      in store ''white-noise'' [whiteNoise, filter]
           (startNode whiteNoise (createdNodes 2 s)))"

definition playPinkNoise :: "sound_machine \<Rightarrow> sound_machine" where
  "playPinkNoise s =
     (let n = nextNode s;
          pinkNoise = BufferSource n;
          filter = BiquadFilter (n + 1)
      in store ''pink-noise'' [pinkNoise, filter]
           (startNode pinkNoise (createdNodes 2 s)))"

definition playHeartbeat :: "sound_machine \<Rightarrow> sound_machine" where
  "playHeartbeat s =
     (let n = nextNode s;
          heartbeatOsc = Oscillator n;
          heartbeatGain = GainNode (n + 1);
          heartbeatLFO = Oscillator (n + 2);
          heartbeatLFOGain = GainNode (n + 3);
          heartbeatSound = Oscillator (n + 4);
          heartbeatFilter = BiquadFilter (n + 5)
      in store ''heartbeat''
           [heartbeatLFO, heartbeatSound, heartbeatGain, heartbeatLFOGain, heartbeatFilter]
           (startNode heartbeatSound (startNode heartbeatLFO (createdNodes 6 s))))"

definition playOceanWaves :: "sound_machine \<Rightarrow> sound_machine" where
  "playOceanWaves s =
     (let n = nextNode s;
          oceanBase = BufferSource n;
          oceanFilter = BiquadFilter (n + 1);
          waveGain = GainNode (n + 2);
          waveLFO = Oscillator (n + 3);
          waveModulationGain = GainNode (n + 4)
      in store ''ocean'' [oceanBase, oceanFilter, waveGain, waveLFO, waveModulationGain]
           (startNode waveLFO (startNode oceanBase (createdNodes 5 s))))"

definition playLullaby :: "sound_machine \<Rightarrow> sound_machine" where
  "playLullaby s =
     (let n = nextNode s;
          noteOsc = Oscillator n;
          noteGain = GainNode (n + 1)
      in store ''lullaby'' [noteOsc, noteGain]
           (startNode noteOsc (createdNodes 2 s)))"

definition playBrownNoise :: "sound_machine \<Rightarrow> sound_machine" where
  "playBrownNoise s =
     (let n = nextNode s;
          brownNoise = BufferSource n;
          filter = BiquadFilter (n + 1)
      in store ''brown-noise'' [brownNoise, filter]
           (startNode brownNoise (createdNodes 2 s)))"

definition playRain :: "sound_machine \<Rightarrow> sound_machine" where
  "playRain s =
     (let n = nextNode s;
          rainBase = BufferSource n;
          rainFilter = BiquadFilter (n + 1);
          compressor = DynamicsCompressor (n + 2);
          rainGain = GainNode (n + 3);
          (raindropScheduler, s1) =
             setInterval RaindropScheduler (startNode rainBase (createdNodes 4 s))
      in store ''rain''
           [rainBase, rainFilter, compressor, rainGain, IntervalId raindropScheduler] s1)"

definition playSnow :: "sound_machine \<Rightarrow> sound_machine" where
  "playSnow s =
     (let n = nextNode s;
          snowBase = BufferSource n;
          snowFilter = BiquadFilter (n + 1);
          secondFilter = BiquadFilter (n + 2);
          snowGain = GainNode (n + 3);
          windLFO = Oscillator (n + 4);
          windLFOGain = GainNode (n + 5)
      in store ''snow'' [snowBase, snowFilter, secondFilter, snowGain, windLFO, windLFOGain]
           (startNode windLFO (startNode snowBase (createdNodes 6 s))))"

definition playForest :: "sound_machine \<Rightarrow> sound_machine" where
  "playForest s =
     (let n = nextNode s;
          forestBase = BufferSource n;
          forestFilter = BiquadFilter (n + 1);
          forestGain = GainNode (n + 2);
          (birdScheduler, s1) =
             setInterval BirdScheduler (startNode forestBase (createdNodes 3 s));
          (windScheduler, s2) = setInterval WindScheduler s1
      in store ''forest''
           [forestBase, forestFilter, forestGain, IntervalId birdScheduler,
            IntervalId windScheduler] s2)"

subsection \<open>playSound, stopSound, stopAllSounds (lines 180-265)\<close>

text \<open>
  \<open>markPlaying\<close> is the end of \<open>playSound\<close>: the tile with that \<open>data-sound\<close> value, when
  the page has one, gets the class \<open>playing\<close>.
\<close>

definition markPlaying :: "string \<Rightarrow> sound_machine \<Rightarrow> sound_machine" where
  "markPlaying soundType s =
     (if soundType \<in> set (tiles s) then s\<lparr>playing := List.insert soundType (playing s)\<rparr>
      else s)"

definition resumeContext :: "sound_machine \<Rightarrow> sound_machine" where
  "resumeContext s = (if suspended s then s\<lparr>effects := effects s @ [Resumed]\<rparr> else s)"

definition playSound :: "string \<Rightarrow> sound_machine \<Rightarrow> sound_machine" where
  "playSound soundType s =
     (let s1 = resumeContext s
      in if soundType = ''white-noise'' then markPlaying soundType (playWhiteNoise s1)
         else if soundType = ''pink-noise'' then markPlaying soundType (playPinkNoise s1)
         else if soundType = ''brown-noise'' then markPlaying soundType (playBrownNoise s1)
         else if soundType = ''heartbeat'' then markPlaying soundType (playHeartbeat s1)
         else if soundType = ''ocean'' then markPlaying soundType (playOceanWaves s1)
         else if soundType = ''rain'' then markPlaying soundType (playRain s1)
         else if soundType = ''snow'' then markPlaying soundType (playSnow s1)
         else if soundType = ''forest'' then markPlaying soundType (playForest s1)
         else if soundType = ''lullaby'' then markPlaying soundType (playLullaby s1)
         else s1\<lparr>effects := effects s1 @ [ConsoleWarn ''Unknown sound type:'' soundType]\<rparr>)"

text \<open>The identifiers with a case in the \<open>switch\<close> of \<open>playSound\<close>.\<close>

definition builders :: "string list" where
  "builders = [''white-noise'', ''pink-noise'', ''brown-noise'', ''heartbeat'', ''ocean'',
               ''rain'', ''snow'', ''forest'', ''lullaby'']"

text \<open>
  What \<open>stopSound\<close> does to one member of the array: \<open>stop()\<close> when the member has that
  method, otherwise \<open>disconnect()\<close> when it has that one, otherwise nothing.
\<close>

fun release :: "node \<Rightarrow> effect list" where
  "release (BufferSource n) = [Stopped (BufferSource n)]"
| "release (Oscillator n) = [Stopped (Oscillator n)]"
| "release (BiquadFilter n) = [Disconnected (BiquadFilter n)]"
| "release (GainNode n) = [Disconnected (GainNode n)]"
| "release (DynamicsCompressor n) = [Disconnected (DynamicsCompressor n)]"
| "release (IntervalId n) = []"

text \<open>
  Every builder stores an array (truthy also when empty), so the branch of \<open>stopSound\<close>
  for a single node is never taken and the test \<open>if (this.activeSounds[soundType])\<close> is
  the test that the key is present.
\<close>

definition stopSound :: "string \<Rightarrow> sound_machine \<Rightarrow> sound_machine" where
  "stopSound soundType s =
     (case map_of (activeSounds s) soundType of
        None \<Rightarrow> s
      | Some nodes \<Rightarrow>
          s\<lparr>effects := effects s @ concat (map release nodes),
            activeSounds := AList.delete soundType (activeSounds s)\<rparr>)"

definition clearTimer :: "sound_machine \<Rightarrow> sound_machine" where
  "clearTimer s =
     (let s1 = (case timerInterval s of
                  None \<Rightarrow> s
                | Some i \<Rightarrow> (clearInterval i s)\<lparr>timerInterval := None\<rparr>)
      in s1\<lparr>timerDisplayHidden := True, activeTimerBtn := 0\<rparr>)"

definition stopAllSounds :: "sound_machine \<Rightarrow> sound_machine" where
  "stopAllSounds s = clearTimer (fold stopSound (map fst (activeSounds s)) s)"

text \<open>\<open>document.querySelectorAll('.sound-tile').forEach(t => t.classList.remove('playing'))\<close>\<close>

definition resetTiles :: "sound_machine \<Rightarrow> sound_machine" where
  "resetTiles s = s\<lparr>playing := []\<rparr>"

subsection \<open>Timer (lines 281-348)\<close>

definition updateTimerDisplay :: "int \<Rightarrow> sound_machine \<Rightarrow> sound_machine" where
  "updateTimerDisplay now s =
     (let remaining = max 0 (timerEndTime s - now);
          minutes = remaining div (60 * 1000);
          seconds = (remaining mod (60 * 1000)) div 1000
      in s\<lparr>timeRemaining := (minutes, seconds)\<rparr>)"

definition setTimer :: "int \<Rightarrow> int \<Rightarrow> sound_machine \<Rightarrow> sound_machine" where
  "setTimer now minutes s =
     (let s1 = clearTimer s
      in if minutes = 0 then s1\<lparr>timerDisplayHidden := True\<rparr>
         else
           (let s2 = s1\<lparr>timerDuration := minutes * 60 * 1000,
                        timerEndTime := now + minutes * 60 * 1000,
                        timerDisplayHidden := False\<rparr>;
                s3 = updateTimerDisplay now s2;
                (i, s4) = setInterval TimerTick s3
            in s4\<lparr>timerInterval := Some i\<rparr>))"

text \<open>The body of the closure passed to \<open>setInterval\<close> in \<open>setTimer\<close>, run at time \<open>now\<close>.\<close>

definition timerCallback :: "int \<Rightarrow> sound_machine \<Rightarrow> sound_machine" where
  "timerCallback now s =
     (let s1 = updateTimerDisplay now s
      in if now \<ge> timerEndTime s1 then clearTimer (resetTiles (stopAllSounds s1)) else s1)"

text \<open>
  The browser fires interval \<open>i\<close> at time \<open>now\<close>: the closure runs when the handle is still
  in the table, and a cleared handle never fires again. The closures of the rain and forest
  schedulers only read the registry, clear their own handle or launch a transient; their
  firing is not modelled.
\<close>

definition fireTimer :: "nat \<Rightarrow> int \<Rightarrow> sound_machine \<Rightarrow> sound_machine" where
  "fireTimer i now s = (if (i, TimerTick) \<in> set (intervals s) then timerCallback now s else s)"

definition runTicks :: "nat \<Rightarrow> int list \<Rightarrow> sound_machine \<Rightarrow> sound_machine" where
  "runTicks i ticks s = fold (fireTimer i) ticks s"

text \<open>The handles in the browser's table that run the timer's closure.\<close>

definition timerTicks :: "sound_machine \<Rightarrow> nat list" where
  "timerTicks s = map fst (filter (\<lambda>(j, cb). cb = TimerTick) (intervals s))"

text \<open>
  The timer's closures alive in the browser are known to the machine: none when
  \<open>timerInterval\<close> is \<open>null\<close>, otherwise the one handle stored there.
\<close>

definition timerTracked :: "sound_machine \<Rightarrow> bool" where
  "timerTracked s =
     (timerTicks s = (case timerInterval s of None \<Rightarrow> [] | Some i \<Rightarrow> [i]))"

subsection \<open>Combo mode (lines 353-418)\<close>

definition comboCheckboxes :: "sound_machine \<Rightarrow> (string \<times> bool) list" where
  "comboCheckboxes s =
     [(''white-noise'', checkboxes s ''combo-white-noise''),
      (''brown-noise'', checkboxes s ''combo-brown-noise''),
      (''heartbeat'', checkboxes s ''combo-heartbeat''),
      (''ocean'', checkboxes s ''combo-ocean''),
      (''rain'', checkboxes s ''combo-rain''),
      (''snow'', checkboxes s ''combo-snow''),
      (''forest'', checkboxes s ''combo-forest''),
      (''lullaby'', checkboxes s ''combo-lullaby'')]"

definition playIfSelected :: "string \<Rightarrow> sound_machine \<Rightarrow> sound_machine" where
  "playIfSelected sound s =
     (if map_of (comboSounds s) sound = Some True then playSound sound s else s)"

definition applyComboSettings :: "sound_machine \<Rightarrow> sound_machine" where
  "applyComboSettings s =
     (let s1 = resetTiles (stopAllSounds s);
          s2 = s1\<lparr>comboSounds := comboCheckboxes s1\<rparr>;
          hasSelectedSounds = list_ex (\<lambda>val. val = True) (map snd (comboSounds s2))
      in if hasSelectedSounds
         then (fold playIfSelected (map fst (comboSounds s2)) s2)\<lparr>comboSettingsHidden := True\<rparr>
         else s2\<lparr>effects := effects s2 @ [Alert ''Please select at least one sound to combine.'']\<rparr>)"

definition stopIfSelected :: "string \<Rightarrow> sound_machine \<Rightarrow> sound_machine" where
  "stopIfSelected soundType s =
     (if map_of (comboSounds s) soundType = Some True then stopSound soundType s else s)"

definition uncheck :: "string \<Rightarrow> sound_machine \<Rightarrow> sound_machine" where
  "uncheck soundType s =
     s\<lparr>checkboxes := (checkboxes s)(''combo-'' @ soundType := False),
       comboSounds := AList.update soundType False (comboSounds s)\<rparr>"

definition stopCombo :: "sound_machine \<Rightarrow> sound_machine" where
  "stopCombo s =
     (let s1 = fold stopIfSelected (map fst (comboSounds s)) s;
          s2 = fold uncheck (map fst (comboSounds s1)) s1
      in (resetTiles s2)\<lparr>currentSound := None\<rparr>)"

subsection \<open>Tiles (lines 76-88 and 137-174)\<close>

text \<open>
  \<open>toggleSound soundType tile\<close>: a tile is named by its \<open>data-sound\<close> value; the click
  handler passes the tile's own value as \<open>soundType\<close>.
\<close>

definition toggleSound :: "string \<Rightarrow> string \<Rightarrow> sound_machine \<Rightarrow> sound_machine" where
  "toggleSound soundType tile s =
     (if tile \<in> set (playing s)
      then (let s1 = (if soundType = ''combo'' then stopCombo s else stopSound soundType s)
            in s1\<lparr>playing := removeAll tile (playing s1)\<rparr>)
      else (let s1 = (if soundType \<noteq> ''combo'' then resetTiles (stopAllSounds s) else s)
            in if soundType = ''combo'' then s1\<lparr>comboSettingsHidden := False\<rparr>
               else (playSound soundType s1)\<lparr>currentSound := Some soundType\<rparr>))"

definition tileClick :: "string \<Rightarrow> sound_machine \<Rightarrow> sound_machine" where
  "tileClick tile s =
     (if tile = ''combo'' then s\<lparr>comboSettingsHidden := \<not> comboSettingsHidden s\<rparr>
      else toggleSound tile tile s)"

text \<open>
  The intents of exclusive mode: a click on a tile, a click on a timer button (the handler
  calls \<open>setTimer\<close> and then marks the clicked button), and a firing of an interval.
\<close>

datatype intent = ClickTile string | ClickTimer int int | Fire nat int

fun step :: "intent \<Rightarrow> sound_machine \<Rightarrow> sound_machine" where
  "step (ClickTile tile) s = tileClick tile s"
| "step (ClickTimer now minutes) s = (setTimer now minutes s)\<lparr>activeTimerBtn := minutes\<rparr>"
| "step (Fire i now) s = fireTimer i now s"

definition run :: "intent list \<Rightarrow> sound_machine \<Rightarrow> sound_machine" where
  "run intents s = fold step intents s"

subsection \<open>Calls that halt a node\<close>

text \<open>
  A list of calls halts a node when it holds \<open>stop()\<close> on that node for a buffer source or
  an oscillator and \<open>disconnect()\<close> on it for a filter, a gain or the compressor. An
  interval handle is a number and receives no call from \<open>stopSound\<close>; its scheduler ends
  itself at its next tick, when it finds the key gone from the registry.
\<close>

definition halted :: "node \<Rightarrow> effect list \<Rightarrow> bool" where
  "halted n calls =
     (case n of
        BufferSource k \<Rightarrow> Stopped n \<in> set calls
      | Oscillator k \<Rightarrow> Stopped n \<in> set calls
      | BiquadFilter k \<Rightarrow> Disconnected n \<in> set calls
      | GainNode k \<Rightarrow> Disconnected n \<in> set calls
      | DynamicsCompressor k \<Rightarrow> Disconnected n \<in> set calls
      | IntervalId k \<Rightarrow> True)"

subsection \<open>Sample states\<close>

text \<open>
  A page with a tile for every builder and the combo tile, no checkbox ticked and the audio
  context still suspended; the same page with rain playing, and with rain and forest
  playing; with ocean playing while the checkboxes of rain and forest are ticked; and the
  silent page with the checkboxes \<open>combo-pink-noise\<close> and \<open>combo-rain\<close> ticked.
\<close>

definition page :: sound_machine where
  "page = constructor (builders @ [''combo'']) (\<lambda>_. False) True"

definition rainPlaying :: sound_machine where
  "rainPlaying = playSound ''rain'' page"

definition rainAndForest :: sound_machine where
  "rainAndForest = playSound ''forest'' rainPlaying"

definition oceanThenRainForest :: sound_machine where
  "oceanThenRainForest =
     (playSound ''ocean'' page)\<lparr>checkboxes := (\<lambda>i. i = ''combo-rain'' \<or> i = ''combo-forest'')\<rparr>"

definition pinkAndRainTicked :: sound_machine where
  "pinkAndRainTicked =
     page\<lparr>checkboxes := (\<lambda>i. i = ''combo-pink-noise'' \<or> i = ''combo-rain'')\<rparr>"

section \<open>Properties\<close>

subsection \<open>Auxiliary facts about the registry\<close>


lemmas builder_defs =
  playWhiteNoise_def playPinkNoise_def playBrownNoise_def playHeartbeat_def playOceanWaves_def
  playRain_def playSnow_def playForest_def playLullaby_def
  store_def startNode_def createdNodes_def setInterval_def

lemma resumeContext_activeSounds [simp]: "activeSounds (resumeContext s) = activeSounds s"
  by (simp add: resumeContext_def)

lemma markPlaying_activeSounds [simp]: "activeSounds (markPlaying t s) = activeSounds s"
  by (simp add: markPlaying_def)

lemma playSound_switch:
  "playSound ''white-noise'' s = markPlaying ''white-noise'' (playWhiteNoise (resumeContext s))"
  "playSound ''pink-noise'' s = markPlaying ''pink-noise'' (playPinkNoise (resumeContext s))"
  "playSound ''brown-noise'' s = markPlaying ''brown-noise'' (playBrownNoise (resumeContext s))"
  "playSound ''heartbeat'' s = markPlaying ''heartbeat'' (playHeartbeat (resumeContext s))"
  "playSound ''ocean'' s = markPlaying ''ocean'' (playOceanWaves (resumeContext s))"
  "playSound ''rain'' s = markPlaying ''rain'' (playRain (resumeContext s))"
  "playSound ''snow'' s = markPlaying ''snow'' (playSnow (resumeContext s))"
  "playSound ''forest'' s = markPlaying ''forest'' (playForest (resumeContext s))"
  "playSound ''lullaby'' s = markPlaying ''lullaby'' (playLullaby (resumeContext s))"
  by (simp_all add: playSound_def Let_def)

lemma playSound_unknown:
  "C \<notin> set builders \<Longrightarrow>
     playSound C s =
       (resumeContext s)\<lparr>effects := effects (resumeContext s) @ [ConsoleWarn ''Unknown sound type:'' C]\<rparr>"
  by (simp add: builders_def playSound_def Let_def)

lemma builders_delete:
  "AList.delete ''white-noise'' (activeSounds (playWhiteNoise s)) = AList.delete ''white-noise'' (activeSounds s)"
  "AList.delete ''pink-noise'' (activeSounds (playPinkNoise s)) = AList.delete ''pink-noise'' (activeSounds s)"
  "AList.delete ''brown-noise'' (activeSounds (playBrownNoise s)) = AList.delete ''brown-noise'' (activeSounds s)"
  "AList.delete ''heartbeat'' (activeSounds (playHeartbeat s)) = AList.delete ''heartbeat'' (activeSounds s)"
  "AList.delete ''ocean'' (activeSounds (playOceanWaves s)) = AList.delete ''ocean'' (activeSounds s)"
  "AList.delete ''rain'' (activeSounds (playRain s)) = AList.delete ''rain'' (activeSounds s)"
  "AList.delete ''snow'' (activeSounds (playSnow s)) = AList.delete ''snow'' (activeSounds s)"
  "AList.delete ''forest'' (activeSounds (playForest s)) = AList.delete ''forest'' (activeSounds s)"
  "AList.delete ''lullaby'' (activeSounds (playLullaby s)) = AList.delete ''lullaby'' (activeSounds s)"
  by (simp_all add: builder_defs Let_def AList.delete_update_same)

lemma builders_keys:
  "map fst (activeSounds (playWhiteNoise s)) = map fst (AList.update ''white-noise'' [] (activeSounds s))"
  "map fst (activeSounds (playPinkNoise s)) = map fst (AList.update ''pink-noise'' [] (activeSounds s))"
  "map fst (activeSounds (playBrownNoise s)) = map fst (AList.update ''brown-noise'' [] (activeSounds s))"
  "map fst (activeSounds (playHeartbeat s)) = map fst (AList.update ''heartbeat'' [] (activeSounds s))"
  "map fst (activeSounds (playOceanWaves s)) = map fst (AList.update ''ocean'' [] (activeSounds s))"
  "map fst (activeSounds (playRain s)) = map fst (AList.update ''rain'' [] (activeSounds s))"
  "map fst (activeSounds (playSnow s)) = map fst (AList.update ''snow'' [] (activeSounds s))"
  "map fst (activeSounds (playForest s)) = map fst (AList.update ''forest'' [] (activeSounds s))"
  "map fst (activeSounds (playLullaby s)) = map fst (AList.update ''lullaby'' [] (activeSounds s))"
  by (simp_all add: builder_defs Let_def AList.update_keys)

lemma builders_cases:
  assumes "C \<in> set builders"
  obtains "C = ''white-noise''" | "C = ''pink-noise''" | "C = ''brown-noise''" | "C = ''heartbeat''"
    | "C = ''ocean''" | "C = ''rain''" | "C = ''snow''" | "C = ''forest''" | "C = ''lullaby''"
  using assms unfolding builders_def by fastforce

lemma playSound_delete:
  assumes "C \<in> set builders"
  shows "AList.delete C (activeSounds (playSound C s)) = AList.delete C (activeSounds s)"
  using assms by (cases rule: builders_cases) (simp_all only: playSound_switch markPlaying_activeSounds builders_delete resumeContext_activeSounds)

lemma playSound_keys:
  "map fst (activeSounds (playSound C s)) =
     (if C \<in> set builders \<and> C \<notin> set (map fst (activeSounds s))
      then map fst (activeSounds s) @ [C] else map fst (activeSounds s))"
proof (cases "C \<in> set builders")
  case True
  then have "map fst (activeSounds (playSound C s)) = map fst (AList.update C [] (activeSounds s))"
    by (cases rule: builders_cases) (simp_all only: playSound_switch markPlaying_activeSounds builders_keys resumeContext_activeSounds)
  then show ?thesis using True by (simp add: AList.update_keys)
next
  case False
  then show ?thesis by (simp add: playSound_unknown)
qed


lemma stopSound_activeSounds:
  "activeSounds (stopSound t s) = AList.delete t (activeSounds s)"
  by (auto simp: stopSound_def map_of_eq_None_iff split: option.splits)


lemma stopSound_others:
  "suspended (stopSound t s) = suspended s \<and> nextNode (stopSound t s) = nextNode s \<and>
   nextInterval (stopSound t s) = nextInterval s \<and> intervals (stopSound t s) = intervals s \<and>
   timerDuration (stopSound t s) = timerDuration s \<and> timerEndTime (stopSound t s) = timerEndTime s \<and>
   timerInterval (stopSound t s) = timerInterval s \<and> currentSound (stopSound t s) = currentSound s \<and>
   comboSounds (stopSound t s) = comboSounds s \<and> tiles (stopSound t s) = tiles s \<and>
   playing (stopSound t s) = playing s \<and> comboSettingsHidden (stopSound t s) = comboSettingsHidden s \<and>
   timerDisplayHidden (stopSound t s) = timerDisplayHidden s \<and> timeRemaining (stopSound t s) = timeRemaining s \<and>
   activeTimerBtn (stopSound t s) = activeTimerBtn s \<and> checkboxes (stopSound t s) = checkboxes s"
proof (cases "map_of (activeSounds s) t")
  case None
  then show ?thesis by (simp add: stopSound_def)
next
  case (Some nodes)
  then show ?thesis by (simp add: stopSound_def)
qed

lemma playSound_others:
  "suspended (playSound C s) = suspended s \<and>
   timerDuration (playSound C s) = timerDuration s \<and> timerEndTime (playSound C s) = timerEndTime s \<and>
   timerInterval (playSound C s) = timerInterval s \<and> currentSound (playSound C s) = currentSound s \<and>
   comboSounds (playSound C s) = comboSounds s \<and> tiles (playSound C s) = tiles s \<and>
   comboSettingsHidden (playSound C s) = comboSettingsHidden s \<and>
   timerDisplayHidden (playSound C s) = timerDisplayHidden s \<and> timeRemaining (playSound C s) = timeRemaining s \<and>
   activeTimerBtn (playSound C s) = activeTimerBtn s \<and> checkboxes (playSound C s) = checkboxes s"
proof (cases "C \<in> set builders")
  case True
  then show ?thesis
    by (cases rule: builders_cases)
       (simp_all add: playSound_switch builder_defs markPlaying_def resumeContext_def Let_def)
next
  case False
  then show ?thesis by (simp add: playSound_unknown resumeContext_def)
qed

lemma playSound_playing:
  "playing (playSound C s) =
     (if C \<in> set builders \<and> C \<in> set (tiles s) then List.insert C (playing s) else playing s)"
proof (cases "C \<in> set builders")
  case True
  then show ?thesis
    by (cases rule: builders_cases)
       (simp_all add: playSound_switch builder_defs markPlaying_def resumeContext_def Let_def
          builders_def)
next
  case False
  then show ?thesis by (simp add: playSound_unknown resumeContext_def)
qed

lemma page_fields:
  "activeSounds page = []" "playing page = []" "tiles page = builders @ [''combo'']"
  "timerInterval page = None" "intervals page = []" "nextInterval page = 0"
  "checkboxes page = (\<lambda>_. False)"
  by (simp_all add: page_def constructor_def)

lemma rainPlaying_fields:
  "map fst (activeSounds rainPlaying) = [''rain'']" "playing rainPlaying = [''rain'']"
  by (simp_all add: rainPlaying_def playSound_keys playSound_playing page_fields builders_def)

lemma rainAndForest_fields:
  "map fst (activeSounds rainAndForest) = [''rain'', ''forest'']"
  by (simp add: rainAndForest_def playSound_keys rainPlaying_fields builders_def)

subsection \<open>Claim C9: the frame of stopSound\<close>



subsection \<open>Auxiliary facts about the calls on nodes\<close>

lemma stopSound_effects:
  "map_of (activeSounds s) C = Some nodes \<Longrightarrow>
     effects (stopSound C s) = effects s @ concat (map release nodes)"
  by (simp add: stopSound_def)

lemma release_halted: "n \<in> set nodes \<Longrightarrow> halted n (concat (map release nodes))"
  by (cases n) (auto simp: halted_def intro: bexI [of _ n])

lemma release_no_start: "Started n \<notin> set (concat (map release nodes))"
proof -
  have "Started n \<notin> set (release m)" for m
    by (cases m) simp_all
  then show ?thesis by simp
qed

lemma builders_effects:
  "effects (playWhiteNoise s) = effects s @ map Started [BufferSource (nextNode s)]"
  "effects (playPinkNoise s) = effects s @ map Started [BufferSource (nextNode s)]"
  "effects (playBrownNoise s) = effects s @ map Started [BufferSource (nextNode s)]"
  "effects (playHeartbeat s) =
     effects s @ map Started [Oscillator (nextNode s + 2), Oscillator (nextNode s + 4)]"
  "effects (playOceanWaves s) =
     effects s @ map Started [BufferSource (nextNode s), Oscillator (nextNode s + 3)]"
  "effects (playRain s) = effects s @ map Started [BufferSource (nextNode s)]"
  "effects (playSnow s) =
     effects s @ map Started [BufferSource (nextNode s), Oscillator (nextNode s + 4)]"
  "effects (playForest s) = effects s @ map Started [BufferSource (nextNode s)]"
  "effects (playLullaby s) = effects s @ map Started [Oscillator (nextNode s)]"
  by (simp_all add: builder_defs Let_def)

lemma builders_stored:
  "map_of (activeSounds (playWhiteNoise s)) ''white-noise'' =
     Some [BufferSource (nextNode s), BiquadFilter (nextNode s + 1)]"
  "map_of (activeSounds (playPinkNoise s)) ''pink-noise'' =
     Some [BufferSource (nextNode s), BiquadFilter (nextNode s + 1)]"
  "map_of (activeSounds (playBrownNoise s)) ''brown-noise'' =
     Some [BufferSource (nextNode s), BiquadFilter (nextNode s + 1)]"
  "map_of (activeSounds (playHeartbeat s)) ''heartbeat'' =
     Some [Oscillator (nextNode s + 2), Oscillator (nextNode s + 4), GainNode (nextNode s + 1),
           GainNode (nextNode s + 3), BiquadFilter (nextNode s + 5)]"
  "map_of (activeSounds (playOceanWaves s)) ''ocean'' =
     Some [BufferSource (nextNode s), BiquadFilter (nextNode s + 1), GainNode (nextNode s + 2),
           Oscillator (nextNode s + 3), GainNode (nextNode s + 4)]"
  "map_of (activeSounds (playRain s)) ''rain'' =
     Some [BufferSource (nextNode s), BiquadFilter (nextNode s + 1),
           DynamicsCompressor (nextNode s + 2), GainNode (nextNode s + 3),
           IntervalId (Suc (nextInterval s))]"
  "map_of (activeSounds (playSnow s)) ''snow'' =
     Some [BufferSource (nextNode s), BiquadFilter (nextNode s + 1), BiquadFilter (nextNode s + 2),
           GainNode (nextNode s + 3), Oscillator (nextNode s + 4), GainNode (nextNode s + 5)]"
  "map_of (activeSounds (playForest s)) ''forest'' =
     Some [BufferSource (nextNode s), BiquadFilter (nextNode s + 1), GainNode (nextNode s + 2),
           IntervalId (Suc (nextInterval s)), IntervalId (Suc (Suc (nextInterval s)))]"
  "map_of (activeSounds (playLullaby s)) ''lullaby'' =
     Some [Oscillator (nextNode s), GainNode (nextNode s + 1)]"
  by (simp_all add: builder_defs Let_def AList.update_conv')

lemma markPlaying_effects: "effects (markPlaying t s) = effects s"
  by (simp add: markPlaying_def)

text \<open>
  What \<open>playSound\<close> starts for a known identifier: a non-empty list of generators, each a
  buffer source or an oscillator and each a member of the array stored under the key.
\<close>

lemma playSound_started:
  assumes "C \<in> set builders"
  shows "\<exists>gens nodes. gens \<noteq> [] \<and> set gens \<subseteq> set nodes \<and>
           (\<forall>n\<in>set gens. \<forall>calls. halted n calls \<longrightarrow> Stopped n \<in> set calls) \<and>
           effects (playSound C s) = effects (resumeContext s) @ map Started gens \<and>
           map_of (activeSounds (playSound C s)) C = Some nodes"
proof -
  let ?r = "resumeContext s"
  let ?n = "nextNode ?r"
  note facts = playSound_switch markPlaying_effects markPlaying_activeSounds
    builders_effects builders_stored halted_def
  from assms show ?thesis
  proof (cases rule: builders_cases)
    case 1
    show ?thesis unfolding 1
      by (intro exI [of _ "[BufferSource ?n]"]
            exI [of _ "[BufferSource ?n, BiquadFilter (?n + 1)]"])
         (simp add: facts)
  next
    case 2
    show ?thesis unfolding 2
      by (intro exI [of _ "[BufferSource ?n]"]
            exI [of _ "[BufferSource ?n, BiquadFilter (?n + 1)]"])
         (simp add: facts)
  next
    case 3
    show ?thesis unfolding 3
      by (intro exI [of _ "[BufferSource ?n]"]
            exI [of _ "[BufferSource ?n, BiquadFilter (?n + 1)]"])
         (simp add: facts)
  next
    case 4
    show ?thesis unfolding 4
      by (intro exI [of _ "[Oscillator (?n + 2), Oscillator (?n + 4)]"]
            exI [of _ "[Oscillator (?n + 2), Oscillator (?n + 4), GainNode (?n + 1),
                        GainNode (?n + 3), BiquadFilter (?n + 5)]"])
         (simp add: facts)
  next
    case 5
    show ?thesis unfolding 5
      by (intro exI [of _ "[BufferSource ?n, Oscillator (?n + 3)]"]
            exI [of _ "[BufferSource ?n, BiquadFilter (?n + 1), GainNode (?n + 2),
                        Oscillator (?n + 3), GainNode (?n + 4)]"])
         (simp add: facts)
  next
    case 6
    show ?thesis unfolding 6
      by (intro exI [of _ "[BufferSource ?n]"]
            exI [of _ "[BufferSource ?n, BiquadFilter (?n + 1), DynamicsCompressor (?n + 2),
                        GainNode (?n + 3), IntervalId (Suc (nextInterval ?r))]"])
         (simp add: facts)
  next
    case 7
    show ?thesis unfolding 7
      by (intro exI [of _ "[BufferSource ?n, Oscillator (?n + 4)]"]
            exI [of _ "[BufferSource ?n, BiquadFilter (?n + 1), BiquadFilter (?n + 2),
                        GainNode (?n + 3), Oscillator (?n + 4), GainNode (?n + 5)]"])
         (simp add: facts)
  next
    case 8
    show ?thesis unfolding 8
      by (intro exI [of _ "[BufferSource ?n]"]
            exI [of _ "[BufferSource ?n, BiquadFilter (?n + 1), GainNode (?n + 2),
                        IntervalId (Suc (nextInterval ?r)),
                        IntervalId (Suc (Suc (nextInterval ?r)))]"])
         (simp add: facts)
  next
    case 9
    show ?thesis unfolding 9
      by (intro exI [of _ "[Oscillator ?n]"]
            exI [of _ "[Oscillator ?n, GainNode (?n + 1)]"])
         (simp add: facts)
  qed
qed

subsection \<open>Claim C8: start then stop, and toggling the active tile\<close>

text \<open>
  Claim C8. For every identifier \<open>C\<close> with a builder, \<open>playSound C\<close> followed by
  \<open>stopSound C\<close> leaves the registry as it was without \<open>C\<close>, hence empty when it was
  empty before. \<open>playSound C\<close> starts at least one generator, every generator it starts
  is in the array stored under \<open>C\<close>, and \<open>stopSound C\<close> then calls \<open>stop()\<close> on each
  of them and halts every node of the array, without starting anything. Toggling \<open>C\<close>
  while \<open>C\<close> is the only registered key and its tile is marked playing empties the
  registry, creates no node, halts every registered node, starts nothing and removes the
  mark: the sound is stopped, not started again.
\<close>

theorem start_stop_empty:
  "C \<in> set builders \<Longrightarrow>
     activeSounds (stopSound C (playSound C s)) = AList.delete C (activeSounds s) \<and>
     (activeSounds s = [] \<longrightarrow> activeSounds (stopSound C (playSound C s)) = []) \<and>
     (\<exists>gens nodes calls.
        gens \<noteq> [] \<and> set gens \<subseteq> set nodes \<and>
        effects (playSound C s) = effects (resumeContext s) @ map Started gens \<and>
        map_of (activeSounds (playSound C s)) C = Some nodes \<and>
        effects (stopSound C (playSound C s)) = effects (playSound C s) @ calls \<and>
        (\<forall>n\<in>set gens. Stopped n \<in> set calls) \<and>
        (\<forall>n\<in>set nodes. halted n calls) \<and>
        (\<forall>n. Started n \<notin> set calls)) \<and>
     (map fst (activeSounds s) = [C] \<and> C \<in> set (playing s) \<longrightarrow>
        activeSounds (toggleSound C C s) = [] \<and> nextNode (toggleSound C C s) = nextNode s \<and>
        effects (toggleSound C C s) = effects (stopSound C s) \<and>
        C \<notin> set (playing (toggleSound C C s)) \<and>
        (\<exists>calls.
           effects (toggleSound C C s) = effects s @ calls \<and>
           (\<forall>n\<in>set (concat (map snd (activeSounds s))). halted n calls) \<and>
           (\<forall>n. Started n \<notin> set calls)))"
proof -
  assume known: "C \<in> set builders"
  have round: "activeSounds (stopSound C (playSound C s)) = AList.delete C (activeSounds s)"
    by (simp add: stopSound_activeSounds playSound_delete [OF known])
  have silent: "activeSounds s = [] \<longrightarrow> activeSounds (stopSound C (playSound C s)) = []"
    by (simp add: round)
  have notcombo: "C \<noteq> ''combo''"
    using known by (auto simp: builders_def)
  obtain gens nodes where gens: "gens \<noteq> []" "set gens \<subseteq> set nodes"
      and generators: "\<forall>n\<in>set gens. \<forall>calls. halted n calls \<longrightarrow> Stopped n \<in> set calls"
      and started: "effects (playSound C s) = effects (resumeContext s) @ map Started gens"
      and stored: "map_of (activeSounds (playSound C s)) C = Some nodes"
    using playSound_started [OF known, of s] by blast
  let ?calls = "concat (map release nodes)"
  have stopped: "effects (stopSound C (playSound C s)) = effects (playSound C s) @ ?calls"
    by (rule stopSound_effects [OF stored])
  have all_halted: "\<forall>n\<in>set nodes. halted n ?calls"
    by (simp add: release_halted)
  have gens_stopped: "\<forall>n\<in>set gens. Stopped n \<in> set ?calls"
    using generators all_halted gens(2) by blast
  have no_start: "\<forall>n. Started n \<notin> set ?calls"
    by (simp only: release_no_start simp_thms)
  have calls: "\<exists>gens nodes calls.
        gens \<noteq> [] \<and> set gens \<subseteq> set nodes \<and>
        effects (playSound C s) = effects (resumeContext s) @ map Started gens \<and>
        map_of (activeSounds (playSound C s)) C = Some nodes \<and>
        effects (stopSound C (playSound C s)) = effects (playSound C s) @ calls \<and>
        (\<forall>n\<in>set gens. Stopped n \<in> set calls) \<and>
        (\<forall>n\<in>set nodes. halted n calls) \<and>
        (\<forall>n. Started n \<notin> set calls)"
    by (intro exI [of _ gens] exI [of _ nodes] exI [of _ ?calls] conjI gens started stored
          stopped gens_stopped all_halted no_start)
  have toggle: "map fst (activeSounds s) = [C] \<and> C \<in> set (playing s) \<longrightarrow>
        activeSounds (toggleSound C C s) = [] \<and> nextNode (toggleSound C C s) = nextNode s \<and>
        effects (toggleSound C C s) = effects (stopSound C s) \<and>
        C \<notin> set (playing (toggleSound C C s)) \<and>
        (\<exists>calls.
           effects (toggleSound C C s) = effects s @ calls \<and>
           (\<forall>n\<in>set (concat (map snd (activeSounds s))). halted n calls) \<and>
           (\<forall>n. Started n \<notin> set calls))"
  proof
    assume active: "map fst (activeSounds s) = [C] \<and> C \<in> set (playing s)"
    then obtain entry where only: "activeSounds s = [(C, entry)]"
      by (cases "activeSounds s") auto
    have toggled: "toggleSound C C s =
        (stopSound C s)\<lparr>playing := removeAll C (playing (stopSound C s))\<rparr>"
      using active notcombo by (simp add: toggleSound_def Let_def)
    have registry: "activeSounds (toggleSound C C s) = []"
      unfolding toggled by (simp add: stopSound_activeSounds only)
    have nodes: "nextNode (toggleSound C C s) = nextNode s"
      unfolding toggled by (simp add: stopSound_others)
    have same: "effects (toggleSound C C s) = effects (stopSound C s)"
      unfolding toggled by simp
    have mark: "C \<notin> set (playing (toggleSound C C s))"
      unfolding toggled by simp
    have "effects (stopSound C s) = effects s @ concat (map release entry)"
      by (rule stopSound_effects) (simp add: only)
    then have appended: "effects (toggleSound C C s) = effects s @ concat (map release entry)"
      by (simp only: same)
    have released: "\<forall>n\<in>set (concat (map snd (activeSounds s))). halted n (concat (map release entry))"
      by (simp add: only release_halted)
    have quiet: "\<forall>n. Started n \<notin> set (concat (map release entry))"
      by (simp only: release_no_start simp_thms)
    have "\<exists>calls.
           effects (toggleSound C C s) = effects s @ calls \<and>
           (\<forall>n\<in>set (concat (map snd (activeSounds s))). halted n calls) \<and>
           (\<forall>n. Started n \<notin> set calls)"
      by (intro exI [of _ "concat (map release entry)"] conjI appended released quiet)
    then show "activeSounds (toggleSound C C s) = [] \<and> nextNode (toggleSound C C s) = nextNode s \<and>
        effects (toggleSound C C s) = effects (stopSound C s) \<and>
        C \<notin> set (playing (toggleSound C C s)) \<and>
        (\<exists>calls.
           effects (toggleSound C C s) = effects s @ calls \<and>
           (\<forall>n\<in>set (concat (map snd (activeSounds s))). halted n calls) \<and>
           (\<forall>n. Started n \<notin> set calls))"
      using registry nodes same mark by (intro conjI)
  qed
  show ?thesis by (intro conjI round silent calls toggle)
qed

lemma rainPlaying_registry:
  "activeSounds rainPlaying =
     [(''rain'', [BufferSource 0, BiquadFilter 1, DynamicsCompressor 2, GainNode 3, IntervalId 1])]"
  "effects rainPlaying = [Resumed, Started (BufferSource 0)]"
  by (simp_all add: rainPlaying_def playSound_switch playRain_def Let_def setInterval_def
        markPlaying_def store_def startNode_def createdNodes_def resumeContext_def
        page_def constructor_def)

text \<open>
  On the sample page: rain started and stopped from silence, and the rain tile toggled
  while rain is the one sound playing. The noise source that was started receives
  \<open>stop()\<close>, the filter, compressor and gain are disconnected, and the droplet handle
  receives no call.
\<close>

theorem start_stop_empty_witness:
  "''rain'' \<in> set builders \<and> activeSounds page = [] \<and>
   activeSounds (stopSound ''rain'' (playSound ''rain'' page)) = [] \<and>
   map fst (activeSounds rainPlaying) = [''rain''] \<and> ''rain'' \<in> set (playing rainPlaying) \<and>
   activeSounds (toggleSound ''rain'' ''rain'' rainPlaying) = [] \<and>
   Started (BufferSource 0) \<in> set (effects rainPlaying) \<and>
   Stopped (BufferSource 0) \<in> set (effects (stopSound ''rain'' (playSound ''rain'' page))) \<and>
   Stopped (BufferSource 0) \<in> set (effects (toggleSound ''rain'' ''rain'' rainPlaying)) \<and>
   Disconnected (GainNode 3) \<in> set (effects (toggleSound ''rain'' ''rain'' rainPlaying)) \<and>
   effects (toggleSound ''rain'' ''rain'' rainPlaying) =
     [Resumed, Started (BufferSource 0), Stopped (BufferSource 0), Disconnected (BiquadFilter 1),
      Disconnected (DynamicsCompressor 2), Disconnected (GainNode 3)]"
proof -
  have known: "''rain'' \<in> set builders" by (simp add: builders_def)
  have marked: "''rain'' \<in> set (playing rainPlaying)" by (simp add: rainPlaying_fields)
  note fresh = start_stop_empty [OF known, of page]
  note live = start_stop_empty [OF known, of rainPlaying]
  have "activeSounds page = [] \<longrightarrow> activeSounds (stopSound ''rain'' (playSound ''rain'' page)) = []"
    by (rule conjunct1 [OF conjunct2 [OF fresh]])
  then have round: "activeSounds (stopSound ''rain'' (playSound ''rain'' page)) = []"
    using page_fields(1) by (rule mp)
  have started: "Started (BufferSource 0) \<in> set (effects rainPlaying)"
    by (simp add: rainPlaying_registry)
  obtain gens nodes calls where
      stored: "map_of (activeSounds (playSound ''rain'' page)) ''rain'' = Some nodes"
      and stopped: "effects (stopSound ''rain'' (playSound ''rain'' page)) =
        effects (playSound ''rain'' page) @ calls"
      and halted: "\<forall>n\<in>set nodes. halted n calls"
    using conjunct1 [OF conjunct2 [OF conjunct2 [OF fresh]]] by blast
  have "Some nodes =
      Some [BufferSource 0, BiquadFilter 1, DynamicsCompressor 2, GainNode 3, IntervalId 1]"
    unfolding stored [symmetric] by (simp add: rainPlaying_registry [unfolded rainPlaying_def])
  then have "BufferSource 0 \<in> set nodes"
    by simp
  with halted have "halted (BufferSource 0) calls" by (rule bspec)
  then have base: "Stopped (BufferSource 0) \<in> set (effects (stopSound ''rain'' (playSound ''rain'' page)))"
    by (simp add: stopped halted_def)
  from conjunct2 [OF conjunct2 [OF conjunct2 [OF live]]] conjI [OF rainPlaying_fields(1) marked]
  have toggled: "activeSounds (toggleSound ''rain'' ''rain'' rainPlaying) = [] \<and>
      nextNode (toggleSound ''rain'' ''rain'' rainPlaying) = nextNode rainPlaying \<and>
      effects (toggleSound ''rain'' ''rain'' rainPlaying) = effects (stopSound ''rain'' rainPlaying) \<and>
      ''rain'' \<notin> set (playing (toggleSound ''rain'' ''rain'' rainPlaying)) \<and>
      (\<exists>calls.
         effects (toggleSound ''rain'' ''rain'' rainPlaying) = effects rainPlaying @ calls \<and>
         (\<forall>n\<in>set (concat (map snd (activeSounds rainPlaying))). halted n calls) \<and>
         (\<forall>n. Started n \<notin> set calls))"
    by (rule mp)
  have empty: "activeSounds (toggleSound ''rain'' ''rain'' rainPlaying) = []"
    by (rule conjunct1 [OF toggled])
  obtain calls' where
      appended: "effects (toggleSound ''rain'' ''rain'' rainPlaying) = effects rainPlaying @ calls'"
      and released: "\<forall>n\<in>set (concat (map snd (activeSounds rainPlaying))). halted n calls'"
    using conjunct2 [OF conjunct2 [OF conjunct2 [OF conjunct2 [OF toggled]]]] by blast
  have "halted (BufferSource 0) calls'" "halted (GainNode 3) calls'"
    using released by (simp_all add: rainPlaying_registry)
  then have source: "Stopped (BufferSource 0) \<in> set (effects (toggleSound ''rain'' ''rain'' rainPlaying))"
    and gain: "Disconnected (GainNode 3) \<in> set (effects (toggleSound ''rain'' ''rain'' rainPlaying))"
    by (simp_all add: appended halted_def)
  have "effects (stopSound ''rain'' rainPlaying) =
     [Resumed, Started (BufferSource 0), Stopped (BufferSource 0), Disconnected (BiquadFilter 1),
      Disconnected (DynamicsCompressor 2), Disconnected (GainNode 3)]"
    by (simp add: stopSound_def rainPlaying_registry)
  then have exact: "effects (toggleSound ''rain'' ''rain'' rainPlaying) =
     [Resumed, Started (BufferSource 0), Stopped (BufferSource 0), Disconnected (BiquadFilter 1),
      Disconnected (DynamicsCompressor 2), Disconnected (GainNode 3)]"
    by (simp only: conjunct1 [OF conjunct2 [OF conjunct2 [OF toggled]]])
  show ?thesis
    by (intro conjI known page_fields(1) round rainPlaying_fields(1) marked empty started base
          source gain exact)
qed

subsection \<open>Auxiliary facts about stopAllSounds and the commit\<close>

lemma fold_stopSound_activeSounds:
  "activeSounds (fold stopSound ks s) = fold AList.delete ks (activeSounds s)"
  by (induction ks arbitrary: s) (simp_all add: stopSound_activeSounds)

lemma fold_stopSound_others:
  "suspended (fold stopSound ks s) = suspended s \<and> nextNode (fold stopSound ks s) = nextNode s \<and>
   nextInterval (fold stopSound ks s) = nextInterval s \<and> intervals (fold stopSound ks s) = intervals s \<and>
   timerDuration (fold stopSound ks s) = timerDuration s \<and> timerEndTime (fold stopSound ks s) = timerEndTime s \<and>
   timerInterval (fold stopSound ks s) = timerInterval s \<and> currentSound (fold stopSound ks s) = currentSound s \<and>
   comboSounds (fold stopSound ks s) = comboSounds s \<and> tiles (fold stopSound ks s) = tiles s \<and>
   playing (fold stopSound ks s) = playing s \<and> comboSettingsHidden (fold stopSound ks s) = comboSettingsHidden s \<and>
   timerDisplayHidden (fold stopSound ks s) = timerDisplayHidden s \<and> timeRemaining (fold stopSound ks s) = timeRemaining s \<and>
   activeTimerBtn (fold stopSound ks s) = activeTimerBtn s \<and> checkboxes (fold stopSound ks s) = checkboxes s"
proof (induction ks arbitrary: s)
  case Nil
  show ?case by simp
next
  case (Cons k ks)
  show ?case using Cons.IH [of "stopSound k s"] by (simp add: stopSound_others)
qed

lemma fold_delete_all:
  "fst ` set xs \<subseteq> set ks \<Longrightarrow> fold AList.delete ks xs = []"
proof (induction ks arbitrary: xs)
  case Nil
  then show ?case by simp
next
  case (Cons k ks)
  have "fst ` set (AList.delete k xs) \<subseteq> set ks"
    using Cons.prems by (auto simp: AList.delete_eq)
  then show ?case using Cons.IH by simp
qed

lemma clearTimer_others:
  "suspended (clearTimer s) = suspended s \<and> nextNode (clearTimer s) = nextNode s \<and>
   nextInterval (clearTimer s) = nextInterval s \<and> effects (clearTimer s) = effects s \<and>
   activeSounds (clearTimer s) = activeSounds s \<and>
   timerDuration (clearTimer s) = timerDuration s \<and> timerEndTime (clearTimer s) = timerEndTime s \<and>
   currentSound (clearTimer s) = currentSound s \<and>
   comboSounds (clearTimer s) = comboSounds s \<and> tiles (clearTimer s) = tiles s \<and>
   playing (clearTimer s) = playing s \<and> comboSettingsHidden (clearTimer s) = comboSettingsHidden s \<and>
   timeRemaining (clearTimer s) = timeRemaining s \<and> checkboxes (clearTimer s) = checkboxes s"
proof (cases "timerInterval s")
  case None
  then show ?thesis by (simp add: clearTimer_def)
next
  case (Some i)
  then show ?thesis by (simp add: clearTimer_def clearInterval_def)
qed

lemma clearTimer_timer:
  "timerInterval (clearTimer s) = None \<and> timerDisplayHidden (clearTimer s) \<and>
   activeTimerBtn (clearTimer s) = 0 \<and>
   intervals (clearTimer s) =
     (case timerInterval s of None \<Rightarrow> intervals s
      | Some i \<Rightarrow> filter (\<lambda>(j, cb). j \<noteq> i) (intervals s))"
proof (cases "timerInterval s")
  case None
  then show ?thesis by (simp add: clearTimer_def)
next
  case (Some i)
  then show ?thesis by (simp add: clearTimer_def clearInterval_def)
qed

lemma stopAllSounds_activeSounds: "activeSounds (stopAllSounds s) = []"
  by (simp add: stopAllSounds_def clearTimer_others fold_stopSound_activeSounds fold_delete_all)

lemma stopAllSounds_others:
  "suspended (stopAllSounds s) = suspended s \<and> nextNode (stopAllSounds s) = nextNode s \<and>
   nextInterval (stopAllSounds s) = nextInterval s \<and>
   timerDuration (stopAllSounds s) = timerDuration s \<and> timerEndTime (stopAllSounds s) = timerEndTime s \<and>
   currentSound (stopAllSounds s) = currentSound s \<and>
   comboSounds (stopAllSounds s) = comboSounds s \<and> tiles (stopAllSounds s) = tiles s \<and>
   playing (stopAllSounds s) = playing s \<and> comboSettingsHidden (stopAllSounds s) = comboSettingsHidden s \<and>
   timeRemaining (stopAllSounds s) = timeRemaining s \<and> checkboxes (stopAllSounds s) = checkboxes s"
  by (simp add: stopAllSounds_def clearTimer_others fold_stopSound_others)

lemma stopAllSounds_timer:
  "timerInterval (stopAllSounds s) = None \<and> timerDisplayHidden (stopAllSounds s) \<and>
   activeTimerBtn (stopAllSounds s) = 0 \<and>
   intervals (stopAllSounds s) =
     (case timerInterval s of None \<Rightarrow> intervals s
      | Some i \<Rightarrow> filter (\<lambda>(j, cb). j \<noteq> i) (intervals s))"
proof (cases "timerInterval s")
  case None
  then show ?thesis by (simp add: stopAllSounds_def clearTimer_timer fold_stopSound_others)
next
  case (Some i)
  then show ?thesis by (simp add: stopAllSounds_def clearTimer_timer fold_stopSound_others)
qed

lemma resetTiles_fields:
  "playing (resetTiles s) = []" "activeSounds (resetTiles s) = activeSounds s"
  "effects (resetTiles s) = effects s" "nextNode (resetTiles s) = nextNode s"
  "checkboxes (resetTiles s) = checkboxes s" "comboSounds (resetTiles s) = comboSounds s"
  "timerInterval (resetTiles s) = timerInterval s" "intervals (resetTiles s) = intervals s"
  "timerEndTime (resetTiles s) = timerEndTime s" "nextInterval (resetTiles s) = nextInterval s"
  "tiles (resetTiles s) = tiles s" "comboSettingsHidden (resetTiles s) = comboSettingsHidden s"
  by (simp_all add: resetTiles_def)

lemma playIfSelected_comboSounds: "comboSounds (playIfSelected k s) = comboSounds s"
  by (simp add: playIfSelected_def playSound_others)

lemma fold_playIfSelected_comboSounds: "comboSounds (fold playIfSelected ks s) = comboSounds s"
  by (induction ks arbitrary: s) (simp_all add: playIfSelected_comboSounds)

lemma fold_playIfSelected_keys:
  "set ks \<subseteq> set builders \<Longrightarrow> distinct ks \<Longrightarrow>
   set ks \<inter> set (map fst (activeSounds s)) = {} \<Longrightarrow>
   map fst (activeSounds (fold playIfSelected ks s)) =
     map fst (activeSounds s) @ filter (\<lambda>k. map_of (comboSounds s) k = Some True) ks"
proof (induction ks arbitrary: s)
  case Nil
  show ?case by simp
next
  case (Cons k ks)
  let ?s = "playIfSelected k s"
  have known: "k \<in> set builders" and fresh: "k \<notin> set (map fst (activeSounds s))"
    and later: "k \<notin> set ks"
    using Cons.prems by auto
  have keys: "map fst (activeSounds ?s) =
      (if map_of (comboSounds s) k = Some True then map fst (activeSounds s) @ [k]
       else map fst (activeSounds s))"
    using known fresh by (simp add: playIfSelected_def playSound_keys)
  have "set ks \<inter> set (map fst (activeSounds ?s)) = {}"
    using Cons.prems(3) later unfolding keys by auto
  then have "map fst (activeSounds (fold playIfSelected ks ?s)) =
      map fst (activeSounds ?s) @ filter (\<lambda>k. map_of (comboSounds ?s) k = Some True) ks"
    using Cons.prems(1,2) by (intro Cons.IH) auto
  then show ?case by (simp add: keys playIfSelected_comboSounds)
qed

lemma comboCheckboxes_frame: "checkboxes s' = checkboxes s \<Longrightarrow> comboCheckboxes s' = comboCheckboxes s"
  by (simp add: comboCheckboxes_def)

lemma comboCheckboxes_keys:
  "map fst (comboCheckboxes s) =
     [''white-noise'', ''brown-noise'', ''heartbeat'', ''ocean'', ''rain'', ''snow'', ''forest'', ''lullaby'']"
  by (simp add: comboCheckboxes_def)

lemma applyComboSettings_comboSounds: "comboSounds (applyComboSettings s) = comboCheckboxes s"
proof -
  have "comboCheckboxes (resetTiles (stopAllSounds s)) = comboCheckboxes s"
    by (rule comboCheckboxes_frame) (simp add: resetTiles_fields stopAllSounds_others)
  then show ?thesis
    by (simp add: applyComboSettings_def Let_def fold_playIfSelected_comboSounds)
qed

lemma none_selected:
  "\<not> list_ex (\<lambda>val. val = True) (map snd cs) \<Longrightarrow>
     filter (\<lambda>k. map_of cs k = Some True) ks = []"
proof -
  assume none: "\<not> list_ex (\<lambda>val. val = True) (map snd cs)"
  have "map_of cs k \<noteq> Some True" for k
  proof
    assume "map_of cs k = Some True"
    then have "(k, True) \<in> set cs" by (rule map_of_SomeD)
    then have "True \<in> snd ` set cs" by force
    with none show False by (simp add: list_ex_iff)
  qed
  then show ?thesis by simp
qed

lemma applyComboSettings_keys:
  "map fst (activeSounds (applyComboSettings s)) =
     filter (\<lambda>k. map_of (comboCheckboxes s) k = Some True) (map fst (comboCheckboxes s))"
proof -
  let ?s1 = "resetTiles (stopAllSounds s)"
  let ?s2 = "?s1\<lparr>comboSounds := comboCheckboxes ?s1\<rparr>"
  have cb: "comboCheckboxes ?s1 = comboCheckboxes s"
    by (rule comboCheckboxes_frame) (simp add: resetTiles_fields stopAllSounds_others)
  have empty: "activeSounds ?s2 = []"
    by (simp add: resetTiles_fields stopAllSounds_activeSounds)
  show ?thesis
  proof (cases "list_ex (\<lambda>val. val = True) (map snd (comboCheckboxes s))")
    case True
    have "map fst (activeSounds (fold playIfSelected (map fst (comboCheckboxes s)) ?s2)) =
        map fst (activeSounds ?s2) @
        filter (\<lambda>k. map_of (comboSounds ?s2) k = Some True) (map fst (comboCheckboxes s))"
      by (rule fold_playIfSelected_keys) (simp_all add: comboCheckboxes_keys builders_def empty)
    then show ?thesis
      using True
      by (simp add: applyComboSettings_def Let_def cb resetTiles_fields stopAllSounds_activeSounds)
  next
    case False
    then show ?thesis
      by (simp add: applyComboSettings_def Let_def cb none_selected resetTiles_fields
            stopAllSounds_activeSounds)
  qed
qed

subsection \<open>Claim C6: committing rain and forest\<close>

text \<open>
  Claim C6. When the checkboxes of rain and forest are ticked and those of the other six
  sounds read at commit are not, \<open>applyComboSettings\<close> leaves exactly the keys rain and
  forest in the registry, whatever was registered before.
\<close>

theorem combo_rain_forest:
  assumes "checkboxes s ''combo-rain''" and "checkboxes s ''combo-forest''"
    and "\<not> checkboxes s ''combo-white-noise''" and "\<not> checkboxes s ''combo-brown-noise''"
    and "\<not> checkboxes s ''combo-heartbeat''" and "\<not> checkboxes s ''combo-ocean''"
    and "\<not> checkboxes s ''combo-snow''" and "\<not> checkboxes s ''combo-lullaby''"
  shows "map fst (activeSounds (applyComboSettings s)) = [''rain'', ''forest'']"
proof -
  have "comboCheckboxes s =
      [(''white-noise'', False), (''brown-noise'', False), (''heartbeat'', False),
       (''ocean'', False), (''rain'', True), (''snow'', False), (''forest'', True),
       (''lullaby'', False)]"
    using assms by (simp add: comboCheckboxes_def)
  then show ?thesis by (simp add: applyComboSettings_keys)
qed

text \<open>
  Ocean is playing, rain and forest are ticked: after the commit the registry holds rain
  and forest and no ocean.
\<close>

theorem combo_rain_forest_witness:
  "map fst (activeSounds oceanThenRainForest) = [''ocean''] \<and>
   map fst (activeSounds (applyComboSettings oceanThenRainForest)) = [''rain'', ''forest'']"
proof -
  have before: "map fst (activeSounds oceanThenRainForest) = [''ocean'']"
    by (simp add: oceanThenRainForest_def playSound_keys page_fields builders_def)
  have after: "map fst (activeSounds (applyComboSettings oceanThenRainForest)) = [''rain'', ''forest'']"
    by (rule combo_rain_forest) (simp_all add: oceanThenRainForest_def)
  show ?thesis by (intro conjI before after)
qed

subsection \<open>Claim C10: a commit never starts pink noise\<close>

text \<open>
  Claim C10. For every machine, hence every configuration of checkboxes, the selection
  stored by \<open>applyComboSettings\<close> has no key pink-noise and pink-noise is not registered
  after the commit, although pink-noise has a builder and is a key of the selection the
  constructor creates.
\<close>

theorem combo_never_pink:
  "map_of (comboSounds (applyComboSettings s)) ''pink-noise'' = None \<and>
   ''pink-noise'' \<notin> set (map fst (activeSounds (applyComboSettings s))) \<and>
   ''pink-noise'' \<in> set builders \<and>
   map_of (comboSounds (constructor page_tiles page_checkboxes ctx_suspended)) ''pink-noise'' = Some False"
proof -
  have 1: "map_of (comboSounds (applyComboSettings s)) ''pink-noise'' = None"
    by (simp add: applyComboSettings_comboSounds comboCheckboxes_def)
  have 2: "''pink-noise'' \<notin> set (map fst (activeSounds (applyComboSettings s)))"
    by (simp add: applyComboSettings_keys comboCheckboxes_keys)
  have 3: "''pink-noise'' \<in> set builders"
    by (simp add: builders_def)
  have 4: "map_of (comboSounds (constructor page_tiles page_checkboxes ctx_suspended)) ''pink-noise'' = Some False"
    by (simp add: constructor_def)
  show ?thesis by (intro conjI 1 2 3 4)
qed

text \<open>
  Even with a checkbox \<open>combo-pink-noise\<close> ticked on the page, the commit neither
  records nor starts pink noise.
\<close>

theorem combo_never_pink_witness:
  "checkboxes pinkAndRainTicked ''combo-pink-noise'' \<and>
   map_of (comboSounds (applyComboSettings pinkAndRainTicked)) ''pink-noise'' = None \<and>
   ''pink-noise'' \<notin> set (map fst (activeSounds (applyComboSettings pinkAndRainTicked)))"
proof -
  have ticked: "checkboxes pinkAndRainTicked ''combo-pink-noise''"
    by (simp add: pinkAndRainTicked_def)
  show ?thesis
    by (intro conjI ticked conjunct1 [OF combo_never_pink]
          conjunct1 [OF conjunct2 [OF combo_never_pink]])
qed

subsection \<open>Claim C1: committing an empty selection\<close>

text \<open>
  Claim C1 says that a commit with nothing ticked leaves the registry unchanged. With
  rain playing and no checkbox ticked, the commit empties a registry that held rain.
\<close>

theorem empty_commit_counterexample:
  "list_all (\<lambda>(k, v). \<not> v) (comboCheckboxes rainPlaying) \<and>
   map fst (activeSounds rainPlaying) = [''rain''] \<and>
   activeSounds (applyComboSettings rainPlaying) = [] \<and>
   activeSounds (applyComboSettings rainPlaying) \<noteq> activeSounds rainPlaying"
proof -
  have cb: "checkboxes rainPlaying = (\<lambda>_. False)"
    by (simp add: rainPlaying_def playSound_others page_fields)
  have none: "list_all (\<lambda>(k, v). \<not> v) (comboCheckboxes rainPlaying)"
    by (simp add: comboCheckboxes_def cb)
  have "map fst (activeSounds (applyComboSettings rainPlaying)) = []"
    by (simp add: applyComboSettings_keys comboCheckboxes_def cb)
  then have after: "activeSounds (applyComboSettings rainPlaying) = []"
    by simp
  have "activeSounds rainPlaying \<noteq> []"
    using rainPlaying_fields(1) by fastforce
  then have changed: "activeSounds (applyComboSettings rainPlaying) \<noteq> activeSounds rainPlaying"
    by (simp add: after)
  show ?thesis by (intro conjI none rainPlaying_fields(1) after changed)
qed

text \<open>
  Claim C1, amended. \<open>applyComboSettings\<close> stops all sounds and clears the playing marks
  before it looks at the checkboxes. With none of the eight checkboxes ticked the result is
  the machine after \<open>stopAllSounds\<close> with no tile marked, the all-false selection stored
  and the alert shown: the registry is empty, the timer is cancelled, no node is created
  and the combo panel stays as it was.
\<close>

theorem empty_commit_stops_all:
  assumes "list_all (\<lambda>(k, v). \<not> v) (comboCheckboxes s)"
  shows "applyComboSettings s =
           (resetTiles (stopAllSounds s))
             \<lparr>comboSounds := comboCheckboxes s,
              effects := effects (stopAllSounds s) @
                 [Alert ''Please select at least one sound to combine.'']\<rparr> \<and>
         activeSounds (applyComboSettings s) = [] \<and>
         timerInterval (applyComboSettings s) = None \<and>
         playing (applyComboSettings s) = [] \<and>
         nextNode (applyComboSettings s) = nextNode s \<and>
         comboSettingsHidden (applyComboSettings s) = comboSettingsHidden s"
proof -
  have cb: "comboCheckboxes (resetTiles (stopAllSounds s)) = comboCheckboxes s"
    by (rule comboCheckboxes_frame) (simp add: resetTiles_fields stopAllSounds_others)
  have "\<not> list_ex (\<lambda>val. val = True) (map snd (comboCheckboxes s))"
    using assms by (simp add: comboCheckboxes_def)
  then have eq: "applyComboSettings s =
           (resetTiles (stopAllSounds s))
             \<lparr>comboSounds := comboCheckboxes s,
              effects := effects (stopAllSounds s) @
                 [Alert ''Please select at least one sound to combine.'']\<rparr>"
    by (simp add: applyComboSettings_def Let_def cb resetTiles_fields)
  show ?thesis
    unfolding eq
    by (simp add: resetTiles_fields stopAllSounds_activeSounds stopAllSounds_others
          stopAllSounds_timer)
qed

text \<open>
  With rain playing and nothing ticked, the commit ends with an empty registry and has
  created no node.
\<close>

theorem empty_commit_stops_all_witness:
  "list_all (\<lambda>(k, v). \<not> v) (comboCheckboxes rainPlaying) \<and>
   activeSounds (applyComboSettings rainPlaying) = [] \<and>
   nextNode (applyComboSettings rainPlaying) = nextNode rainPlaying"
proof -
  have cb: "checkboxes rainPlaying = (\<lambda>_. False)"
    by (simp add: rainPlaying_def playSound_others page_fields)
  have none: "list_all (\<lambda>(k, v). \<not> v) (comboCheckboxes rainPlaying)"
    by (simp add: comboCheckboxes_def cb)
  note all = empty_commit_stops_all [OF none]
  show ?thesis
    by (intro conjI none conjunct1 [OF conjunct2 [OF all]]
          conjunct1 [OF conjunct2 [OF conjunct2 [OF conjunct2 [OF conjunct2 [OF all]]]]])
qed

lemma fold_stopIfSelected_comboSounds: "comboSounds (fold stopIfSelected ks s) = comboSounds s"
  by (induction ks arbitrary: s) (simp_all add: stopIfSelected_def stopSound_others)

lemma fold_uncheck_comboSounds:
  "map_of (comboSounds (fold uncheck ks s)) x =
     (if x \<in> set ks then Some False else map_of (comboSounds s) x)"
proof (induction ks arbitrary: s)
  case Nil
  show ?case by simp
next
  case (Cons k ks)
  show ?case
    using Cons.IH [of "uncheck k s"] by (simp add: uncheck_def AList.update_conv')
qed

subsection \<open>Claim C2: the selection after commit and after stopCombo\<close>

text \<open>
  Claim C2 says that the selection is all-false after every commit. With rain ticked, the
  selection stored by the commit holds true for rain.
\<close>

theorem combo_counterexample:
  "map_of (comboSounds (applyComboSettings pinkAndRainTicked)) ''rain'' = Some True"
  by (simp add: applyComboSettings_comboSounds comboCheckboxes_def pinkAndRainTicked_def)

text \<open>
  Claim C2, amended. After \<open>applyComboSettings\<close> the selection holds exactly the values
  read from the eight checkboxes (\<open>stopCombo\<close> needs them to know what to stop); after
  \<open>stopCombo\<close> every key of the selection holds false and no key is added.
\<close>

theorem combo_selection_after:
  "comboSounds (applyComboSettings s) = comboCheckboxes s \<and>
   map_of (comboSounds (stopCombo s)) k =
     (if k \<in> set (map fst (comboSounds s)) then Some False else None)"
proof -
  have "map_of (comboSounds (stopCombo s)) k =
      (if k \<in> set (map fst (comboSounds s)) then Some False else map_of (comboSounds s) k)"
    by (simp add: stopCombo_def Let_def resetTiles_fields fold_uncheck_comboSounds
          fold_stopIfSelected_comboSounds)
  moreover have "map_of (comboSounds s) k = None" if "k \<notin> set (map fst (comboSounds s))"
    using that by (simp add: map_of_eq_None_iff)
  ultimately show ?thesis
    by (simp add: applyComboSettings_comboSounds)
qed

text \<open>
  With rain ticked: true for rain after the commit, false after \<open>stopCombo\<close>; on the
  fresh page \<open>stopCombo\<close> keeps the key pink-noise, at false.
\<close>

theorem combo_selection_after_witness:
  "map_of (comboSounds (applyComboSettings pinkAndRainTicked)) ''rain'' = Some True \<and>
   map_of (comboSounds (stopCombo (applyComboSettings pinkAndRainTicked))) ''rain'' = Some False \<and>
   map_of (comboSounds (stopCombo page)) ''pink-noise'' = Some False"
proof -
  have kept: "comboSounds (applyComboSettings pinkAndRainTicked) = comboCheckboxes pinkAndRainTicked"
    by (rule conjunct1 [OF combo_selection_after])
  have 1: "map_of (comboSounds (applyComboSettings pinkAndRainTicked)) ''rain'' = Some True"
    unfolding kept by (simp add: comboCheckboxes_def pinkAndRainTicked_def)
  have 2: "map_of (comboSounds (stopCombo (applyComboSettings pinkAndRainTicked))) ''rain'' = Some False"
    unfolding conjunct2 [OF combo_selection_after] kept by (simp add: comboCheckboxes_def)
  have 3: "map_of (comboSounds (stopCombo page)) ''pink-noise'' = Some False"
    unfolding conjunct2 [OF combo_selection_after] by (simp add: page_def constructor_def)
  show ?thesis by (intro conjI 1 2 3)
qed

lemma toggleSound_start:
  "soundType \<noteq> ''combo'' \<Longrightarrow> tile \<notin> set (playing s) \<Longrightarrow>
     toggleSound soundType tile s =
       (playSound soundType (resetTiles (stopAllSounds s)))\<lparr>currentSound := Some soundType\<rparr>"
  by (simp add: toggleSound_def Let_def)

subsection \<open>Claim C3: an identifier without a builder\<close>




subsection \<open>Auxiliary facts about the timer\<close>

lemma updateTimerDisplay_fields:
  "activeSounds (updateTimerDisplay t s) = activeSounds s"
  "intervals (updateTimerDisplay t s) = intervals s"
  "timerInterval (updateTimerDisplay t s) = timerInterval s"
  "timerEndTime (updateTimerDisplay t s) = timerEndTime s"
  "nextInterval (updateTimerDisplay t s) = nextInterval s"
  "playing (updateTimerDisplay t s) = playing s"
  by (simp_all add: updateTimerDisplay_def Let_def)

lemma fold_updateTimerDisplay_fields:
  "activeSounds (fold updateTimerDisplay ts s) = activeSounds s \<and>
   intervals (fold updateTimerDisplay ts s) = intervals s \<and>
   timerInterval (fold updateTimerDisplay ts s) = timerInterval s \<and>
   timerEndTime (fold updateTimerDisplay ts s) = timerEndTime s"
  by (induction ts arbitrary: s) (simp_all add: updateTimerDisplay_fields)

lemma setTimer_zero: "setTimer now 0 s = clearTimer s"
  by (simp add: setTimer_def Let_def clearTimer_def)

lemma setTimer_armed:
  assumes "m \<noteq> 0"
  shows "timerInterval (setTimer now m s) = Some (Suc (nextInterval s))"
    and "timerEndTime (setTimer now m s) = now + m * 60 * 1000"
    and "intervals (setTimer now m s) = intervals (clearTimer s) @ [(Suc (nextInterval s), TimerTick)]"
    and "nextInterval (setTimer now m s) = Suc (nextInterval s)"
    and "activeSounds (setTimer now m s) = activeSounds s"
    and "playing (setTimer now m s) = playing s"
  using assms
  by (simp_all add: setTimer_def Let_def setInterval_def updateTimerDisplay_def clearTimer_others)

lemma setTimer_activeSounds: "activeSounds (setTimer now m s) = activeSounds s"
  by (cases "m = 0") (simp_all add: setTimer_zero setTimer_armed clearTimer_others)

lemma fireTimer_early:
  "(i, TimerTick) \<in> set (intervals s) \<Longrightarrow> t < timerEndTime s \<Longrightarrow>
     fireTimer i t s = updateTimerDisplay t s"
  by (simp add: fireTimer_def timerCallback_def Let_def updateTimerDisplay_fields)

lemma fireTimer_late:
  "(i, TimerTick) \<in> set (intervals s) \<Longrightarrow> timerEndTime s \<le> t \<Longrightarrow>
     fireTimer i t s = clearTimer (resetTiles (stopAllSounds (updateTimerDisplay t s)))"
  by (simp add: fireTimer_def timerCallback_def Let_def updateTimerDisplay_fields)

lemma fireTimer_cleared: "(i, TimerTick) \<notin> set (intervals s) \<Longrightarrow> fireTimer i t s = s"
  by (simp add: fireTimer_def)

lemma runTicks_early:
  "(i, TimerTick) \<in> set (intervals s) \<Longrightarrow> \<forall>p\<in>set ts. p < timerEndTime s \<Longrightarrow>
     runTicks i ts s = fold updateTimerDisplay ts s"
proof (induction ts arbitrary: s)
  case Nil
  show ?case by (simp add: runTicks_def)
next
  case (Cons t ts)
  have step: "fireTimer i t s = updateTimerDisplay t s"
    using Cons.prems by (simp add: fireTimer_early)
  have "runTicks i ts (updateTimerDisplay t s) = fold updateTimerDisplay ts (updateTimerDisplay t s)"
    using Cons.prems by (intro Cons.IH) (simp_all add: updateTimerDisplay_fields)
  then show ?case by (simp add: runTicks_def step)
qed

lemma runTicks_cleared:
  "(i, TimerTick) \<notin> set (intervals s) \<Longrightarrow> runTicks i ts s = s"
  by (induction ts) (simp_all add: runTicks_def fireTimer_cleared)

lemma runTicks_append: "runTicks i (xs @ ys) s = runTicks i ys (runTicks i xs s)"
  by (simp add: runTicks_def)

lemma expiry_clears:
  assumes "timerInterval s = Some i"
  shows "(i, cb) \<notin> set (intervals (clearTimer (resetTiles (stopAllSounds s))))"
    and "timerInterval (clearTimer (resetTiles (stopAllSounds s))) = None"
    and "activeSounds (clearTimer (resetTiles (stopAllSounds s))) = []"
    and "playing (clearTimer (resetTiles (stopAllSounds s))) = []"
  using assms
  by (simp_all add: clearTimer_timer clearTimer_others resetTiles_fields stopAllSounds_timer
        stopAllSounds_activeSounds)

subsection \<open>Claim C4: the timer fires once\<close>

text \<open>
  Claim C4. Arm the timer for \<open>m\<close> minutes at time \<open>now\<close> (\<open>m\<close> not zero, in particular
  \<open>m > 0\<close>); its handle is the next interval handle. Ticks before the deadline
  \<open>now + m * 60 * 1000\<close> only refresh the display and leave the registry alone. At the
  first tick \<open>t\<close> at or after the deadline the closure runs \<open>stopAllSounds\<close>, clears the
  marks and clears the timer; whatever ticks the browser might still deliver for that
  handle afterwards change nothing, so the whole run contains \<open>stopAllSounds\<close> once. At
  the end the registry is empty, \<open>timerInterval\<close> is \<open>null\<close> and the handle is no longer
  in the browser's table.
\<close>

theorem timer_fires_once:
  assumes "m \<noteq> 0"
    and "\<forall>p\<in>set before. p < now + m * 60 * 1000"
    and "now + m * 60 * 1000 \<le> t"
  shows "timerInterval (setTimer now m s) = Some (Suc (nextInterval s)) \<and>
         timerEndTime (setTimer now m s) = now + m * 60 * 1000 \<and>
         runTicks (Suc (nextInterval s)) before (setTimer now m s) =
           fold updateTimerDisplay before (setTimer now m s) \<and>
         activeSounds (runTicks (Suc (nextInterval s)) before (setTimer now m s)) = activeSounds s \<and>
         runTicks (Suc (nextInterval s)) (before @ t # after) (setTimer now m s) =
           clearTimer (resetTiles (stopAllSounds
             (updateTimerDisplay t (fold updateTimerDisplay before (setTimer now m s))))) \<and>
         activeSounds (runTicks (Suc (nextInterval s)) (before @ t # after) (setTimer now m s)) = [] \<and>
         playing (runTicks (Suc (nextInterval s)) (before @ t # after) (setTimer now m s)) = [] \<and>
         timerInterval (runTicks (Suc (nextInterval s)) (before @ t # after) (setTimer now m s)) = None \<and>
         (Suc (nextInterval s), TimerTick) \<notin>
           set (intervals (runTicks (Suc (nextInterval s)) (before @ t # after) (setTimer now m s)))"
proof -
  let ?i = "Suc (nextInterval s)"
  let ?armed = "setTimer now m s"
  let ?waiting = "fold updateTimerDisplay before ?armed"
  let ?fired = "clearTimer (resetTiles (stopAllSounds (updateTimerDisplay t ?waiting)))"
  note armed = setTimer_armed [OF assms(1), of now s]
  have live: "(?i, TimerTick) \<in> set (intervals ?armed)"
    by (simp add: armed)
  have early: "runTicks ?i before ?armed = ?waiting"
    using live assms(2) by (intro runTicks_early) (simp_all add: armed)
  have quiet: "activeSounds (runTicks ?i before ?armed) = activeSounds s"
    by (simp add: early fold_updateTimerDisplay_fields armed)
  have "fireTimer ?i t ?waiting = ?fired"
    using live assms(3) by (intro fireTimer_late) (simp_all add: fold_updateTimerDisplay_fields armed)
  then have upto: "runTicks ?i (before @ [t]) ?armed = ?fired"
    by (simp add: runTicks_def early [unfolded runTicks_def])
  have handle: "timerInterval (updateTimerDisplay t ?waiting) = Some ?i"
    by (simp add: updateTimerDisplay_fields fold_updateTimerDisplay_fields armed)
  note gone = expiry_clears [OF handle]
  have "runTicks ?i after ?fired = ?fired"
    by (rule runTicks_cleared) (rule gone(1))
  then have whole: "runTicks ?i (before @ t # after) ?armed = ?fired"
    using upto runTicks_append [of ?i "before @ [t]" after ?armed] by simp
  show ?thesis
    unfolding whole
    by (intro conjI armed(1) armed(2) early quiet refl gone(3) gone(4) gone(2) gone(1))
qed

text \<open>
  Rain is playing, the timer is armed for one minute at time 1000: ticks at 2000 and 3000
  keep rain, the tick at 61000 stops it, and ticks at 62000 and 63000 do nothing more.
\<close>

theorem timer_fires_once_witness:
  "(1::int) \<noteq> 0 \<and> 2000 < 1000 + (1::int) * 60 * 1000 \<and> 3000 < 1000 + (1::int) * 60 * 1000 \<and>
   1000 + (1::int) * 60 * 1000 \<le> 61000 \<and>
   map fst (activeSounds (runTicks 2 [2000, 3000] (setTimer 1000 1 rainPlaying))) = [''rain''] \<and>
   activeSounds (runTicks 2 ([2000, 3000] @ 61000 # [62000, 63000]) (setTimer 1000 1 rainPlaying)) = [] \<and>
   timerInterval (runTicks 2 ([2000, 3000] @ 61000 # [62000, 63000]) (setTimer 1000 1 rainPlaying)) = None"
proof -
  have h1: "(1::int) \<noteq> 0" by simp
  have h2: "\<forall>p\<in>set [2000, 3000]. p < 1000 + (1::int) * 60 * 1000" by simp
  have h3: "1000 + (1::int) * 60 * 1000 \<le> 61000" by simp
  have handle: "Suc (nextInterval rainPlaying) = 2"
    by (simp add: rainPlaying_def playSound_switch playRain_def Let_def setInterval_def
          markPlaying_def store_def startNode_def createdNodes_def resumeContext_def page_fields)
  note all = timer_fires_once [OF h1 h2 h3, of rainPlaying "[62000, 63000]", unfolded handle]
  have quiet: "activeSounds (runTicks 2 [2000, 3000] (setTimer 1000 1 rainPlaying)) = activeSounds rainPlaying"
    by (rule conjunct1 [OF conjunct2 [OF conjunct2 [OF conjunct2 [OF all]]]])
  have 1: "map fst (activeSounds (runTicks 2 [2000, 3000] (setTimer 1000 1 rainPlaying))) = [''rain'']"
    unfolding quiet by (rule rainPlaying_fields(1))
  have 2: "activeSounds (runTicks 2 ([2000, 3000] @ 61000 # [62000, 63000]) (setTimer 1000 1 rainPlaying)) = []"
    by (rule conjunct1 [OF conjunct2 [OF conjunct2 [OF conjunct2 [OF conjunct2 [OF conjunct2 [OF all]]]]]])
  have 3: "timerInterval (runTicks 2 ([2000, 3000] @ 61000 # [62000, 63000]) (setTimer 1000 1 rainPlaying)) = None"
    by (rule conjunct1 [OF conjunct2 [OF conjunct2 [OF conjunct2 [OF conjunct2 [OF conjunct2
          [OF conjunct2 [OF conjunct2 [OF all]]]]]]]])
  have early: "2000 < 1000 + (1::int) * 60 * 1000" "3000 < 1000 + (1::int) * 60 * 1000"
    by simp_all
  show ?thesis by (intro conjI h1 early h3 1 2 3)
qed

lemma timerTicks_filter:
  "map fst (filter (\<lambda>(j, cb). cb = TimerTick) (filter (\<lambda>(j, cb). j \<noteq> i) xs)) =
     filter (\<lambda>j. j \<noteq> i) (map fst (filter (\<lambda>(j, cb). cb = TimerTick) xs))"
  by (induction xs) auto

lemma timerTicks_clearTimer: "timerTracked s \<Longrightarrow> timerTicks (clearTimer s) = []"
proof (cases "timerInterval s")
  case None
  assume "timerTracked s"
  with None show ?thesis by (simp add: timerTracked_def timerTicks_def clearTimer_timer)
next
  case (Some i)
  assume "timerTracked s"
  with Some have only: "timerTicks s = [i]"
    by (simp add: timerTracked_def)
  have "intervals (clearTimer s) = filter (\<lambda>(j, cb). j \<noteq> i) (intervals s)"
    using Some by (simp add: clearTimer_timer)
  then have "timerTicks (clearTimer s) = filter (\<lambda>j. j \<noteq> i) (timerTicks s)"
    by (simp only: timerTicks_def timerTicks_filter)
  then show ?thesis by (simp add: only)
qed

lemma timerTicks_setTimer:
  assumes "timerTracked s"
  shows "timerTicks (setTimer now m s) = (if m = 0 then [] else [Suc (nextInterval s)])"
proof (cases "m = 0")
  case True
  then show ?thesis by (simp add: setTimer_zero timerTicks_clearTimer [OF assms])
next
  case False
  have "timerTicks (setTimer now m s) = timerTicks (clearTimer s) @ [Suc (nextInterval s)]"
    by (simp add: timerTicks_def setTimer_armed(3) [OF False])
  then show ?thesis using False by (simp add: timerTicks_clearTimer [OF assms])
qed

lemma timerTracked_setTimer:
  assumes "timerTracked s"
  shows "timerTracked (setTimer now m s)"
proof (cases "m = 0")
  case True
  then show ?thesis
    using timerTicks_setTimer [OF assms, of now m]
    by (simp add: timerTracked_def setTimer_zero clearTimer_timer)
next
  case False
  then show ?thesis
    using timerTicks_setTimer [OF assms, of now m]
    by (simp add: timerTracked_def setTimer_armed(1) [OF False])
qed

text \<open>
  The machine knows the timer closures alive in the browser: this holds after the
  constructor and is kept by every intent and by a combo commit.
\<close>

lemma timerTracked_frame:
  "intervals s' = intervals s \<Longrightarrow> timerInterval s' = timerInterval s \<Longrightarrow>
     timerTracked s' = timerTracked s"
  by (simp add: timerTracked_def timerTicks_def)

lemma timerTracked_clearTimer: "timerTracked s \<Longrightarrow> timerTracked (clearTimer s)"
  by (simp add: timerTracked_def timerTicks_clearTimer [unfolded timerTracked_def] clearTimer_timer)

lemma timerTracked_stopAllSounds: "timerTracked s \<Longrightarrow> timerTracked (stopAllSounds s)"
proof -
  assume "timerTracked s"
  then have "timerTracked (fold stopSound (map fst (activeSounds s)) s)"
    by (simp add: timerTracked_frame [of "fold stopSound (map fst (activeSounds s)) s" s]
          fold_stopSound_others)
  then show ?thesis
    unfolding stopAllSounds_def by (rule timerTracked_clearTimer)
qed

lemma builders_timerTicks:
  "timerTicks (playWhiteNoise s) = timerTicks s" "timerTicks (playPinkNoise s) = timerTicks s"
  "timerTicks (playBrownNoise s) = timerTicks s" "timerTicks (playHeartbeat s) = timerTicks s"
  "timerTicks (playOceanWaves s) = timerTicks s" "timerTicks (playRain s) = timerTicks s"
  "timerTicks (playSnow s) = timerTicks s" "timerTicks (playForest s) = timerTicks s"
  "timerTicks (playLullaby s) = timerTicks s"
  by (simp_all add: timerTicks_def builder_defs Let_def)

lemma timerTicks_marked: "timerTicks (markPlaying t s) = timerTicks s"
  by (simp add: timerTicks_def markPlaying_def)

lemma timerTicks_resumed: "timerTicks (resumeContext s) = timerTicks s"
  by (simp add: timerTicks_def resumeContext_def)

lemma playSound_timerTicks: "timerTicks (playSound C s) = timerTicks s"
proof (cases "C \<in> set builders")
  case True
  then show ?thesis
    by (cases rule: builders_cases)
       (simp_all only: playSound_switch timerTicks_marked builders_timerTicks timerTicks_resumed)
next
  case False
  then show ?thesis by (simp add: playSound_unknown timerTicks_def resumeContext_def)
qed

lemma timerTracked_playSound: "timerTracked s \<Longrightarrow> timerTracked (playSound C s)"
  by (simp add: timerTracked_def playSound_timerTicks playSound_others)

lemma timerTracked_toggleSound:
  assumes "soundType \<noteq> ''combo''" and "timerTracked s"
  shows "timerTracked (toggleSound soundType tile s)"
proof (cases "tile \<in> set (playing s)")
  case True
  have "timerTracked (stopSound soundType s)"
    using assms(2) by (simp add: timerTracked_frame [of "stopSound soundType s" s] stopSound_others)
  then show ?thesis
    using True assms(1) by (simp add: toggleSound_def Let_def timerTracked_def timerTicks_def)
next
  case False
  have "timerTracked (resetTiles (stopAllSounds s))"
    using timerTracked_stopAllSounds [OF assms(2)]
    by (simp add: timerTracked_def timerTicks_def resetTiles_fields)
  then have "timerTracked (playSound soundType (resetTiles (stopAllSounds s)))"
    by (rule timerTracked_playSound)
  then show ?thesis
    by (simp add: toggleSound_start [OF assms(1) False] timerTracked_def timerTicks_def)
qed

lemma timerTracked_fireTimer: "timerTracked s \<Longrightarrow> timerTracked (fireTimer i t s)"
proof -
  assume tracked: "timerTracked s"
  then have shown: "timerTracked (updateTimerDisplay t s)"
    by (simp add: timerTracked_def timerTicks_def updateTimerDisplay_fields)
  then have "timerTracked (resetTiles (stopAllSounds (updateTimerDisplay t s)))"
    using timerTracked_stopAllSounds [of "updateTimerDisplay t s"]
    by (simp add: timerTracked_def timerTicks_def resetTiles_fields)
  then have "timerTracked (clearTimer (resetTiles (stopAllSounds (updateTimerDisplay t s))))"
    by (rule timerTracked_clearTimer)
  then show ?thesis
    using tracked shown by (simp add: fireTimer_def timerCallback_def Let_def)
qed

lemma timerTracked_step: "timerTracked s \<Longrightarrow> timerTracked (step e s)"
proof (cases e)
  case (ClickTile tile)
  assume tracked: "timerTracked s"
  show ?thesis
  proof (cases "tile = ''combo''")
    case True
    then show ?thesis
      using tracked ClickTile by (simp add: tileClick_def timerTracked_def timerTicks_def)
  next
    case False
    then show ?thesis
      using timerTracked_toggleSound [OF False tracked, of tile] ClickTile
      by (simp add: tileClick_def)
  qed
next
  case (ClickTimer now minutes)
  assume "timerTracked s"
  then have "timerTracked (setTimer now minutes s)"
    by (rule timerTracked_setTimer)
  then show ?thesis
    using ClickTimer by (simp add: timerTracked_def timerTicks_def)
next
  case (Fire i t)
  assume "timerTracked s"
  then have "timerTracked (fireTimer i t s)"
    by (rule timerTracked_fireTimer)
  then show ?thesis using Fire by simp
qed

lemma timerTracked_run: "timerTracked s \<Longrightarrow> timerTracked (run intents s)"
proof (induction intents arbitrary: s)
  case Nil
  then show ?case by (simp add: run_def)
next
  case (Cons e es)
  have "timerTracked (step e s)"
    by (rule timerTracked_step [OF Cons.prems])
  then have "timerTracked (run es (step e s))"
    by (rule Cons.IH)
  then show ?case by (simp add: run_def)
qed

lemma timerTracked_constructor:
  "timerTracked (constructor page_tiles page_checkboxes ctx_suspended)"
  by (simp add: timerTracked_def timerTicks_def constructor_def)

lemma fold_playIfSelected_timerTracked:
  "timerTracked s \<Longrightarrow> timerTracked (fold playIfSelected ks s)"
  by (induction ks arbitrary: s) (simp_all add: playIfSelected_def timerTracked_playSound)

lemma timerTracked_applyComboSettings:
  assumes "timerTracked s"
  shows "timerTracked (applyComboSettings s)"
proof -
  let ?s2 = "(resetTiles (stopAllSounds s))\<lparr>comboSounds := comboCheckboxes (resetTiles (stopAllSounds s))\<rparr>"
  have base: "timerTracked ?s2"
    using timerTracked_stopAllSounds [OF assms]
    by (simp add: timerTracked_def timerTicks_def resetTiles_fields)
  have "timerTracked (fold playIfSelected ks ?s2)" for ks
    using base by (rule fold_playIfSelected_timerTracked)
  then show ?thesis
    using base by (simp add: applyComboSettings_def Let_def timerTracked_def timerTicks_def)
qed

subsection \<open>Claim C7: arming again replaces the timer\<close>

text \<open>
  Claim C7. Start from a machine that knows the timer closures alive in the browser, as
  every machine reached from the constructor does (\<open>timerTracked_constructor\<close>,
  \<open>timerTracked_run\<close>, \<open>timerTracked_applyComboSettings\<close>).
  After \<open>setTimer a\<close> at \<open>now1\<close> and \<open>setTimer b\<close> at \<open>now2\<close> with \<open>b\<close> not zero, the
  deadline is \<open>now2 + b * 60 * 1000\<close> (neither the first deadline nor a sum), and exactly
  one timer closure is alive, the one stored in \<open>timerInterval\<close>. After \<open>setTimer a\<close>
  and \<open>setTimer 0\<close> no timer closure is alive and \<open>timerInterval\<close> is \<open>null\<close> at once.
\<close>

theorem rearm_replaces:
  assumes "timerTracked s" and "b \<noteq> 0"
  shows "timerEndTime (setTimer now2 b (setTimer now1 a s)) = now2 + b * 60 * 1000 \<and>
         timerInterval (setTimer now2 b (setTimer now1 a s)) =
           Some (Suc (nextInterval (setTimer now1 a s))) \<and>
         timerTicks (setTimer now2 b (setTimer now1 a s)) =
           [Suc (nextInterval (setTimer now1 a s))] \<and>
         timerInterval (setTimer now2 0 (setTimer now1 a s)) = None \<and>
         timerTicks (setTimer now2 0 (setTimer now1 a s)) = []"
proof -
  have first: "timerTracked (setTimer now1 a s)"
    by (rule timerTracked_setTimer [OF assms(1)])
  have deadline: "timerEndTime (setTimer now2 b (setTimer now1 a s)) = now2 + b * 60 * 1000"
    by (rule setTimer_armed(2) [OF assms(2)])
  have handle: "timerInterval (setTimer now2 b (setTimer now1 a s)) =
      Some (Suc (nextInterval (setTimer now1 a s)))"
    by (rule setTimer_armed(1) [OF assms(2)])
  have single: "timerTicks (setTimer now2 b (setTimer now1 a s)) =
      [Suc (nextInterval (setTimer now1 a s))]"
    using assms(2) by (simp add: timerTicks_setTimer [OF first])
  have unarmed: "timerInterval (setTimer now2 0 (setTimer now1 a s)) = None"
    by (simp add: setTimer_zero clearTimer_timer)
  have none: "timerTicks (setTimer now2 0 (setTimer now1 a s)) = []"
    by (simp add: timerTicks_setTimer [OF first])
  show ?thesis by (intro conjI deadline handle single unarmed none)
qed

text \<open>
  On the fresh page: 15 minutes at time 0, then 30 minutes at time 5000 give the deadline
  1805000 and the single handle 2; 15 minutes and then 0 leave the timer unarmed.
\<close>

theorem rearm_replaces_witness:
  "timerTracked page \<and> (30::int) \<noteq> 0 \<and>
   timerEndTime (setTimer 5000 30 (setTimer 0 15 page)) = 1805000 \<and>
   timerTicks (setTimer 5000 30 (setTimer 0 15 page)) = [2] \<and>
   timerInterval (setTimer 5000 0 (setTimer 0 15 page)) = None"
proof -
  have tracked: "timerTracked page"
    by (simp add: timerTracked_def timerTicks_def page_fields)
  have armed: "(30::int) \<noteq> 0" by simp
  have first: "Suc (nextInterval (setTimer 0 15 page)) = 2"
    by (simp add: setTimer_armed page_fields)
  note all = rearm_replaces [OF tracked armed, of 5000 0 15]
  have "timerEndTime (setTimer 5000 30 (setTimer 0 15 page)) = 5000 + 30 * 60 * 1000"
    by (rule conjunct1 [OF all])
  then have 1: "timerEndTime (setTimer 5000 30 (setTimer 0 15 page)) = 1805000"
    by simp
  have 2: "timerTicks (setTimer 5000 30 (setTimer 0 15 page)) = [2]"
    using conjunct1 [OF conjunct2 [OF conjunct2 [OF all]]] unfolding first .
  have 3: "timerInterval (setTimer 5000 0 (setTimer 0 15 page)) = None"
    by (rule conjunct1 [OF conjunct2 [OF conjunct2 [OF conjunct2 [OF all]]]])
  show ?thesis by (intro conjI tracked armed 1 2 3)
qed

subsection \<open>Auxiliary facts about exclusive mode\<close>

lemma playSound_length:
  "length (activeSounds (playSound C s)) \<le> Suc (length (activeSounds s))"
proof -
  have "length (map fst (activeSounds (playSound C s))) \<le> Suc (length (map fst (activeSounds s)))"
    unfolding playSound_keys by simp
  then show ?thesis by simp
qed

lemma toggleSound_atMostOne:
  assumes "soundType \<noteq> ''combo''" and "length (activeSounds s) \<le> 1"
  shows "length (activeSounds (toggleSound soundType tile s)) \<le> 1"
proof (cases "tile \<in> set (playing s)")
  case True
  have "length (AList.delete soundType (activeSounds s)) \<le> length (activeSounds s)"
    by (rule AList.length_delete_le)
  then show ?thesis
    using True assms by (simp add: toggleSound_def Let_def stopSound_activeSounds)
next
  case False
  have "length (activeSounds (playSound soundType (resetTiles (stopAllSounds s)))) \<le>
      Suc (length (activeSounds (resetTiles (stopAllSounds s))))"
    by (rule playSound_length)
  then show ?thesis
    by (simp add: toggleSound_start [OF assms(1) False] resetTiles_fields stopAllSounds_activeSounds)
qed

lemma fireTimer_atMostOne:
  "length (activeSounds s) \<le> 1 \<Longrightarrow> length (activeSounds (fireTimer i t s)) \<le> 1"
  by (simp add: fireTimer_def timerCallback_def Let_def updateTimerDisplay_fields clearTimer_others
        resetTiles_fields stopAllSounds_activeSounds)

lemma step_atMostOne:
  "length (activeSounds s) \<le> 1 \<Longrightarrow> length (activeSounds (step e s)) \<le> 1"
proof (cases e)
  case (ClickTile tile)
  assume inv: "length (activeSounds s) \<le> 1"
  show ?thesis
  proof (cases "tile = ''combo''")
    case True
    then show ?thesis using inv ClickTile by (simp add: tileClick_def)
  next
    case False
    then show ?thesis
      using toggleSound_atMostOne [OF False inv, of tile] ClickTile by (simp add: tileClick_def)
  qed
next
  case (ClickTimer now minutes)
  assume "length (activeSounds s) \<le> 1"
  then show ?thesis
    using ClickTimer by (simp add: setTimer_activeSounds)
next
  case (Fire i t)
  assume "length (activeSounds s) \<le> 1"
  then have "length (activeSounds (fireTimer i t s)) \<le> 1"
    by (rule fireTimer_atMostOne)
  then show ?thesis
    using Fire by simp
qed

lemma run_atMostOne:
  "length (activeSounds s) \<le> 1 \<Longrightarrow> length (activeSounds (run intents s)) \<le> 1"
proof (induction intents arbitrary: s)
  case Nil
  then show ?case by (simp add: run_def)
next
  case (Cons e es)
  have "length (activeSounds (step e s)) \<le> 1"
    by (rule step_atMostOne [OF Cons.prems])
  then have "length (activeSounds (run es (step e s))) \<le> 1"
    by (rule Cons.IH)
  then show ?case by (simp add: run_def)
qed

subsection \<open>Claim C5: at most one sound in exclusive mode\<close>

text \<open>
  Claim C5. Every machine reached from the constructor by clicks on tiles, clicks on
  timer buttons and firings of the timer's interval has at most one key in the registry,
  and these intents keep that bound from any machine that satisfies it. A click that
  starts a sound (tile not marked playing) is \<open>stopAllSounds\<close>, clearing of the marks and
  then \<open>playSound\<close>, so even from a registry with several keys at most one remains.
\<close>

theorem exclusive_at_most_one:
  "length (activeSounds (run intents (constructor page_tiles page_checkboxes ctx_suspended))) \<le> 1 \<and>
   (length (activeSounds s) \<le> 1 \<longrightarrow> length (activeSounds (run intents s)) \<le> 1) \<and>
   (soundType \<noteq> ''combo'' \<and> tile \<notin> set (playing s) \<longrightarrow>
      toggleSound soundType tile s =
        (playSound soundType (resetTiles (stopAllSounds s)))\<lparr>currentSound := Some soundType\<rparr> \<and>
      length (activeSounds (toggleSound soundType tile s)) \<le> 1)"
proof -
  have "length (activeSounds (constructor page_tiles page_checkboxes ctx_suspended)) \<le> 1"
    by (simp add: constructor_def)
  then have reachable:
    "length (activeSounds (run intents (constructor page_tiles page_checkboxes ctx_suspended))) \<le> 1"
    by (rule run_atMostOne)
  have kept: "length (activeSounds s) \<le> 1 \<longrightarrow> length (activeSounds (run intents s)) \<le> 1"
    by (intro impI run_atMostOne)
  have start: "soundType \<noteq> ''combo'' \<and> tile \<notin> set (playing s) \<longrightarrow>
      toggleSound soundType tile s =
        (playSound soundType (resetTiles (stopAllSounds s)))\<lparr>currentSound := Some soundType\<rparr> \<and>
      length (activeSounds (toggleSound soundType tile s)) \<le> 1"
  proof
    assume idle: "soundType \<noteq> ''combo'' \<and> tile \<notin> set (playing s)"
    then have eq: "toggleSound soundType tile s =
        (playSound soundType (resetTiles (stopAllSounds s)))\<lparr>currentSound := Some soundType\<rparr>"
      by (simp add: toggleSound_start)
    have "length (activeSounds (playSound soundType (resetTiles (stopAllSounds s)))) \<le>
        Suc (length (activeSounds (resetTiles (stopAllSounds s))))"
      by (rule playSound_length)
    then have "length (activeSounds (toggleSound soundType tile s)) \<le> 1"
      unfolding eq by (simp add: resetTiles_fields stopAllSounds_activeSounds)
    with eq show "toggleSound soundType tile s =
        (playSound soundType (resetTiles (stopAllSounds s)))\<lparr>currentSound := Some soundType\<rparr> \<and>
      length (activeSounds (toggleSound soundType tile s)) \<le> 1"
      by (intro conjI)
  qed
  show ?thesis by (intro conjI reachable kept start)
qed

text \<open>
  A run of four intents on the fresh page (rain, a timer of 15 minutes, a tick of the
  timer's handle, ocean); and, with rain and forest both registered, a click on the ocean
  tile leaves ocean alone in the registry.
\<close>

theorem exclusive_at_most_one_witness:
  "length (activeSounds (run [ClickTile ''rain'', ClickTimer 0 15, Fire 2 1000, ClickTile ''ocean''] page)) \<le> 1 \<and>
   length (activeSounds rainAndForest) = 2 \<and>
   ''ocean'' \<noteq> ''combo'' \<and> ''ocean'' \<notin> set (playing rainAndForest) \<and>
   length (activeSounds (toggleSound ''ocean'' ''ocean'' rainAndForest)) \<le> 1 \<and>
   map fst (activeSounds (toggleSound ''ocean'' ''ocean'' rainAndForest)) = [''ocean'']"
proof -
  note all = exclusive_at_most_one
    [of "[ClickTile ''rain'', ClickTimer 0 15, Fire 2 1000, ClickTile ''ocean'']"
        "builders @ [''combo'']" "\<lambda>_. False" True rainAndForest "''ocean''" "''ocean''"]
  have 1: "length (activeSounds (run [ClickTile ''rain'', ClickTimer 0 15, Fire 2 1000, ClickTile ''ocean''] page)) \<le> 1"
    unfolding page_def by (rule conjunct1 [OF all])
  have "length (map fst (activeSounds rainAndForest)) = 2"
    unfolding rainAndForest_fields by simp
  then have 2: "length (activeSounds rainAndForest) = 2" by simp
  have differ: "''ocean'' \<noteq> ''combo''" by simp
  have marks: "playing rainAndForest = [''forest'', ''rain'']"
    by (simp add: rainAndForest_def playSound_playing playSound_others rainPlaying_fields
          rainPlaying_def page_fields builders_def)
  have idle: "''ocean'' \<notin> set (playing rainAndForest)"
    unfolding marks by simp
  from conjunct2 [OF conjunct2 [OF all]] conjI [OF differ idle]
  have both: "toggleSound ''ocean'' ''ocean'' rainAndForest =
        (playSound ''ocean'' (resetTiles (stopAllSounds rainAndForest)))\<lparr>currentSound := Some ''ocean''\<rparr> \<and>
      length (activeSounds (toggleSound ''ocean'' ''ocean'' rainAndForest)) \<le> 1"
    by (rule mp)
  have 3: "length (activeSounds (toggleSound ''ocean'' ''ocean'' rainAndForest)) \<le> 1"
    by (rule conjunct2 [OF both])
  have 4: "map fst (activeSounds (toggleSound ''ocean'' ''ocean'' rainAndForest)) = [''ocean'']"
    unfolding conjunct1 [OF both]
    by (simp add: playSound_keys resetTiles_fields stopAllSounds_activeSounds builders_def)
  show ?thesis by (intro conjI 1 2 differ idle 3 4)
qed

end
